theory Spec2Isabelle
  imports Main "HOL-Library.Char_ord" "HOL-Library.List_Lexorder"
begin

section \<open>Announcements router: data model\<close>

text \<open>
  The module \<^verbatim>\<open>backend/routers/announcements.py\<close> holds five request handlers over two
  collections of a document store. A document is a Python dict with string keys; the
  values the handlers read and write are strings and \<^verbatim>\<open>None\<close>. The \<^verbatim>\<open>_id\<close> of a stored
  announcement is an object identifier, kept apart from the other fields.
  Strings are compared with Python's \<^verbatim>\<open><\<close> and \<^verbatim>\<open>></\<close>, the lexicographic order on
  characters, which is the order of \<^typ>\<open>string\<close> here. A character of the model stands for
  one Python character, so \<^const>\<open>length\<close> is Python's \<^verbatim>\<open>len\<close>.
\<close>

datatype val = Null | Str string

type_synonym doc = "string \<rightharpoonup> val"

type_synonym object_id = nat

record announcement_doc =
  oid :: object_id
  doc_fields :: doc

text \<open>
  Library functions the handlers call, taken as parameters:
  \<^item> \<open>ObjectId\<close> is \<^verbatim>\<open>bson.ObjectId(s)\<close>; \<open>None\<close> stands for the exception it raises on a
    string that is not a well-formed identifier;
  \<^item> \<open>str_oid\<close> is \<^verbatim>\<open>str\<close> on an object identifier;
  \<^item> \<open>fromisoformat\<close> tells whether \<^verbatim>\<open>datetime.fromisoformat(s)\<close> returns (the handlers
    drop the parsed value) or raises \<^verbatim>\<open>ValueError\<close>.
  The current time \<^verbatim>\<open>datetime.now(timezone.utc).isoformat()\<close> is an argument of the
  handlers that read it.
\<close>

record lib =
  ObjectId :: "string \<Rightarrow> object_id option"
  str_oid :: "object_id \<Rightarrow> string"
  fromisoformat :: "string \<Rightarrow> bool"

text \<open>The request bodies, \<^verbatim>\<open>AnnouncementCreate\<close> and \<^verbatim>\<open>AnnouncementUpdate\<close>.\<close>

record AnnouncementCreate =
  message :: string
  start_date :: "string option"
  expiration_date :: string

record AnnouncementUpdate =
  message_upd :: "string option"
  start_date_upd :: "string option"
  expiration_date_upd :: "string option"

text \<open>
  \<^verbatim>\<open>Field(..., min_length=1, max_length=500)\<close> on \<^verbatim>\<open>message\<close>: an object of either class
  exists only when the constraint holds, for the update class when a message is given.
\<close>

definition valid_message :: "string \<Rightarrow> bool" where
  "valid_message m = (1 \<le> length m \<and> length m \<le> 500)"

definition validate_AnnouncementCreate :: "AnnouncementCreate \<Rightarrow> bool" where
  "validate_AnnouncementCreate a = valid_message (message a)"

definition validate_AnnouncementUpdate :: "AnnouncementUpdate \<Rightarrow> bool" where
  "validate_AnnouncementUpdate a =
     (case message_upd a of None \<Rightarrow> True | Some m \<Rightarrow> valid_message m)"

text \<open>
  Errors: \<^verbatim>\<open>HTTPException(status_code, detail)\<close> raised by a handler, and the rejection of
  a request body that fails the constraints of its class, which happens when the body
  object is built, before the handler's first statement.
\<close>

datatype error = HTTPException nat string | ValidationError

datatype error_kind = Unauthorized | InvalidArgument | NotFound

text \<open>
  The error kinds by status code: 401, 400 and 404. A body that violates the length
  bounds of \<^verbatim>\<open>message\<close> counts as an invalid argument.
\<close>

fun kind :: "error \<Rightarrow> error_kind option" where
  "kind (HTTPException c d) =
     (if c = 401 then Some Unauthorized
      else if c = 400 then Some InvalidArgument
      else if c = 404 then Some NotFound
      else None)"
| "kind ValidationError = Some InvalidArgument"

section \<open>The document store\<close>

text \<open>
  Modelled from the spec: the module \<^verbatim>\<open>backend/database.py\<close>, which declares
  \<^verbatim>\<open>teachers_collection\<close> and \<^verbatim>\<open>announcements_collection\<close>, is missing. The spec: a teachers
  collection keyed by username, used only as an existence check, and an announcements
  collection of schemaless documents keyed by an opaque identifier that the store assigns
  on creation.
  The teachers collection is the set of its keys; the announcements collection is the
  list of its documents in insertion order; \<open>next_oid\<close> is the identifier the store
  assigns next.
\<close>

record store =
  teachers_collection :: "string set"
  announcements_collection :: "announcement_doc list"
  next_oid :: object_id

text \<open>
  Modelled from the spec: \<^verbatim>\<open>find_one({"_id": i})\<close> on the missing collection, the first
  document with that identifier.
\<close>

fun find_one :: "announcement_doc list \<Rightarrow> object_id \<Rightarrow> announcement_doc option" where
  "find_one [] i = None"
| "find_one (d # ds) i = (if oid d = i then Some d else find_one ds i)"

text \<open>
  Modelled from the spec: \<^verbatim>\<open>insert_one(document)\<close> on the missing collection. The store
  assigns the new document an identifier of its own and returns it.
\<close>

definition insert_one :: "store \<Rightarrow> doc \<Rightarrow> object_id \<times> store" where
  "insert_one s d =
     (next_oid s,
      s\<lparr>announcements_collection :=
           announcements_collection s @ [\<lparr>oid = next_oid s, doc_fields = d\<rparr>],
        next_oid := Suc (next_oid s)\<rparr>)"

text \<open>The effect of \<^verbatim>\<open>{"$set": update_doc}\<close> on a document: each listed key is set.\<close>

fun set_fields :: "doc \<Rightarrow> (string \<times> val) list \<Rightarrow> doc" where
  "set_fields f [] = f"
| "set_fields f ((k, v) # kvs) = set_fields (f(k \<mapsto> v)) kvs"

text \<open>
  Modelled from the spec: \<^verbatim>\<open>update_one({"_id": i}, {"$set": update_doc})\<close> on the missing
  collection changes the first document with that identifier.
\<close>

fun update_one ::
  "announcement_doc list \<Rightarrow> object_id \<Rightarrow> (string \<times> val) list \<Rightarrow> announcement_doc list" where
  "update_one [] i u = []"
| "update_one (d # ds) i u =
     (if oid d = i then d\<lparr>doc_fields := set_fields (doc_fields d) u\<rparr> # ds
      else d # update_one ds i u)"

text \<open>
  Modelled from the spec: \<^verbatim>\<open>delete_one({"_id": i})\<close> on the missing collection removes the
  first document with that identifier and reports how many it removed.
\<close>

fun delete_one :: "announcement_doc list \<Rightarrow> object_id \<Rightarrow> nat \<times> announcement_doc list" where
  "delete_one [] i = (0, [])"
| "delete_one (d # ds) i =
     (if oid d = i then (1, ds)
      else (case delete_one ds i of (n, ds') \<Rightarrow> (n, d # ds')))"

section \<open>The handlers\<close>

text \<open>
  \<^verbatim>\<open>announcement.get(k) and announcement[k] > current_date\<close>: the value counts only when
  it is truthy, that is a non-empty string.
\<close>

fun not_started :: "val option \<Rightarrow> string \<Rightarrow> bool" where
  "not_started (Some (Str d)) current_date = (d \<noteq> [] \<and> d > current_date)"
| "not_started _ current_date = False"

fun has_expired :: "val option \<Rightarrow> string \<Rightarrow> bool" where
  "has_expired (Some (Str d)) current_date = (d \<noteq> [] \<and> d < current_date)"
| "has_expired _ current_date = False"

text \<open>\<^verbatim>\<open>announcement["_id"] = str(announcement["_id"])\<close>\<close>

definition stringify :: "lib \<Rightarrow> announcement_doc \<Rightarrow> doc" where
  "stringify L a = (doc_fields a)(''_id'' \<mapsto> Str (str_oid L (oid a)))"

text \<open>The loop of \<^verbatim>\<open>get_active_announcements\<close> over the documents found.\<close>

fun active_loop :: "lib \<Rightarrow> string \<Rightarrow> announcement_doc list \<Rightarrow> doc list" where
  "active_loop L current_date [] = []"
| "active_loop L current_date (a # rest) =
     (if not_started (doc_fields a ''start_date'') current_date
        then active_loop L current_date rest
      else if has_expired (doc_fields a ''expiration_date'') current_date
        then active_loop L current_date rest
      else stringify L a # active_loop L current_date rest)"

definition get_active_announcements :: "lib \<Rightarrow> string \<Rightarrow> store \<Rightarrow> doc list" where
  "get_active_announcements L current_date s =
     active_loop L current_date (announcements_collection s)"

definition get_all_announcements :: "lib \<Rightarrow> string \<Rightarrow> store \<Rightarrow> error + doc list" where
  "get_all_announcements L username s =
     (if username \<notin> teachers_collection s
        then Inl (HTTPException 401 ''Authentication required'')
      else Inr (map (stringify L) (announcements_collection s)))"

text \<open>\<^verbatim>\<open>s.replace('Z', '+00:00')\<close>\<close>

definition replace_Z :: "string \<Rightarrow> string" where
  "replace_Z s = concat (map (\<lambda>c. if c = CHR ''Z'' then ''+00:00'' else [c]) s)"

definition opt_val :: "string option \<Rightarrow> val" where
  "opt_val x = (case x of None \<Rightarrow> Null | Some s \<Rightarrow> Str s)"

text \<open>
  The \<^verbatim>\<open>try\<close> block of \<^verbatim>\<open>create_announcement\<close>: \<open>True\<close> when it raises \<^verbatim>\<open>ValueError\<close>. The
  start date is parsed only when \<^verbatim>\<open>announcement.start_date\<close> is truthy.
\<close>

definition create_dates_invalid :: "lib \<Rightarrow> AnnouncementCreate \<Rightarrow> bool" where
  "create_dates_invalid L announcement =
     (if (case start_date announcement of
            None \<Rightarrow> False
          | Some sd \<Rightarrow> sd \<noteq> [] \<and> \<not> fromisoformat L (replace_Z sd))
        then True
      else \<not> fromisoformat L (replace_Z (expiration_date announcement)))"

definition create_announcement ::
  "lib \<Rightarrow> string \<Rightarrow> AnnouncementCreate \<Rightarrow> string \<Rightarrow> store \<Rightarrow> (error + doc) \<times> store" where
  "create_announcement L now announcement username s =
     (if username \<notin> teachers_collection s
        then (Inl (HTTPException 401 ''Authentication required''), s)
      else if create_dates_invalid L announcement
        then (Inl (HTTPException 400 ''Invalid date format''), s)
      else
        (let announcement_doc =
               [''message'' \<mapsto> Str (message announcement),
                ''start_date'' \<mapsto> opt_val (start_date announcement),
                ''expiration_date'' \<mapsto> Str (expiration_date announcement),
                ''created_by'' \<mapsto> Str username,
                ''created_at'' \<mapsto> Str now]
         in (case insert_one s announcement_doc of
               (inserted_id, s') \<Rightarrow>
                 (Inr (announcement_doc(''_id'' \<mapsto> Str (str_oid L inserted_id))), s'))))"

text \<open>
  The update document of \<^verbatim>\<open>update_announcement\<close>, built key by key; \<open>None\<close> when the
  expiration date given does not parse.
\<close>

definition build_update_doc :: "lib \<Rightarrow> AnnouncementUpdate \<Rightarrow> (string \<times> val) list option" where
  "build_update_doc L announcement =
     (let update_doc = [];
          update_doc = (case message_upd announcement of
                          None \<Rightarrow> update_doc
                        | Some m \<Rightarrow> update_doc @ [(''message'', Str m)]);
          update_doc = (case start_date_upd announcement of
                          None \<Rightarrow> update_doc
                        | Some sd \<Rightarrow> update_doc @ [(''start_date'', Str sd)])
      in (case expiration_date_upd announcement of
            None \<Rightarrow> Some update_doc
          | Some e \<Rightarrow>
              if fromisoformat L (replace_Z e)
                then Some (update_doc @ [(''expiration_date'', Str e)])
              else None))"

text \<open>
  \<^verbatim>\<open>update_announcement\<close>. The last \<^verbatim>\<open>find_one\<close> finds the document just updated; were
  it to find none, the subscript on \<^verbatim>\<open>None\<close> would raise and the request end with status
  500.
\<close>

definition update_announcement ::
  "lib \<Rightarrow> string \<Rightarrow> AnnouncementUpdate \<Rightarrow> string \<Rightarrow> store \<Rightarrow> (error + doc) \<times> store" where
  "update_announcement L announcement_id announcement username s =
     (if username \<notin> teachers_collection s
        then (Inl (HTTPException 401 ''Authentication required''), s)
      else
        (case ObjectId L announcement_id of
           None \<Rightarrow> (Inl (HTTPException 400 ''Invalid announcement ID''), s)
         | Some i \<Rightarrow>
             (case find_one (announcements_collection s) i of
                None \<Rightarrow> (Inl (HTTPException 404 ''Announcement not found''), s)
              | Some existing_announcement \<Rightarrow>
                  (case build_update_doc L announcement of
                     None \<Rightarrow> (Inl (HTTPException 400 ''Invalid date format''), s)
                   | Some update_doc \<Rightarrow>
                       if update_doc = []
                         then (Inl (HTTPException 400 ''No fields to update''), s)
                       else
                         (let s' = s\<lparr>announcements_collection :=
                                       update_one (announcements_collection s) i update_doc\<rparr>
                          in (case find_one (announcements_collection s') i of
                                None \<Rightarrow> (Inl (HTTPException 500 ''Internal Server Error''), s')
                              | Some updated_announcement \<Rightarrow>
                                  (Inr (stringify L updated_announcement), s')))))))"

definition delete_announcement ::
  "lib \<Rightarrow> string \<Rightarrow> string \<Rightarrow> store \<Rightarrow> (error + doc) \<times> store" where
  "delete_announcement L announcement_id username s =
     (if username \<notin> teachers_collection s
        then (Inl (HTTPException 401 ''Authentication required''), s)
      else
        (case ObjectId L announcement_id of
           None \<Rightarrow> (Inl (HTTPException 400 ''Invalid announcement ID''), s)
         | Some i \<Rightarrow>
             (case delete_one (announcements_collection s) i of
                (deleted_count, ds) \<Rightarrow>
                  (let s' = s\<lparr>announcements_collection := ds\<rparr>
                   in if deleted_count = 0
                        then (Inl (HTTPException 404 ''Announcement not found''), s')
                      else (Inr [''message'' \<mapsto> Str ''Announcement deleted successfully''],
                            s')))))"

section \<open>Requests\<close>

text \<open>
  A request reaches its handler once its body object exists: the routes \<^verbatim>\<open>POST\<close> and
  \<^verbatim>\<open>PUT\<close> build an \<^verbatim>\<open>AnnouncementCreate\<close> or \<^verbatim>\<open>AnnouncementUpdate\<close> from the body first, and
  a body that fails the field constraints is rejected there.
\<close>

definition post_announcement ::
  "lib \<Rightarrow> string \<Rightarrow> AnnouncementCreate \<Rightarrow> string \<Rightarrow> store \<Rightarrow> (error + doc) \<times> store" where
  "post_announcement L now body username s =
     (if validate_AnnouncementCreate body
        then create_announcement L now body username s
      else (Inl ValidationError, s))"

definition put_announcement ::
  "lib \<Rightarrow> string \<Rightarrow> AnnouncementUpdate \<Rightarrow> string \<Rightarrow> store \<Rightarrow> (error + doc) \<times> store" where
  "put_announcement L announcement_id body username s =
     (if validate_AnnouncementUpdate body
        then update_announcement L announcement_id body username s
      else (Inl ValidationError, s))"

datatype request =
    Post string AnnouncementCreate string
  | Put string AnnouncementUpdate string
  | Delete string string

fun handle :: "lib \<Rightarrow> request \<Rightarrow> store \<Rightarrow> (error + doc) \<times> store" where
  "handle L (Post now body username) s = post_announcement L now body username s"
| "handle L (Put announcement_id body username) s =
     put_announcement L announcement_id body username s"
| "handle L (Delete announcement_id username) s =
     delete_announcement L announcement_id username s"

text \<open>The store after a sequence of requests.\<close>

fun run :: "lib \<Rightarrow> request list \<Rightarrow> store \<Rightarrow> store" where
  "run L [] s = s"
| "run L (r # rs) s = run L rs (snd (handle L r s))"

section \<open>Predicates of the statements\<close>

text \<open>
  The exclusion condition in the words of the spec: the start date is present and
  greater than the current timestamp, or the expiration date is present and less than it.
  A field is present when the document has a string under that key.
\<close>

definition spec_excluded :: "string \<Rightarrow> announcement_doc \<Rightarrow> bool" where
  "spec_excluded now a =
     ((case doc_fields a ''start_date'' of Some (Str d) \<Rightarrow> now < d | _ \<Rightarrow> False) \<or>
      (case doc_fields a ''expiration_date'' of Some (Str d) \<Rightarrow> d < now | _ \<Rightarrow> False))"

text \<open>
  The store is keyed by identifier: no two announcements share one, and each identifier
  in use was assigned before \<open>next_oid\<close>.
\<close>

definition store_ok :: "store \<Rightarrow> bool" where
  "store_ok s =
     (distinct (map oid (announcements_collection s)) \<and>
      list_all (\<lambda>d. oid d < next_oid s) (announcements_collection s))"

section \<open>A sample library and sample stores\<close>

text \<open>
  An instance of the library parameters on which the handlers can be evaluated: a date
  parser that accepts the shapes \<^verbatim>\<open>YYYY-MM-DD\<close>, \<^verbatim>\<open>YYYY-MM-DDThh:mm:ss\<close> and the latter
  with an offset \<^verbatim>\<open>+hh:mm\<close> or \<^verbatim>\<open>-hh:mm\<close>, and identifiers written as 24 hexadecimal digits.
\<close>

definition is_digit :: "char \<Rightarrow> bool" where
  "is_digit c = (CHR ''0'' \<le> c \<and> c \<le> CHR ''9'')"

fun date_shape :: "string \<Rightarrow> bool" where
  "date_shape [y1, y2, y3, y4, a, m1, m2, b, d1, d2] =
     (list_all is_digit [y1, y2, y3, y4, m1, m2, d1, d2] \<and> a = CHR ''-'' \<and> b = CHR ''-'')"
| "date_shape _ = False"

fun time_shape :: "string \<Rightarrow> bool" where
  "time_shape [t, h1, h2, a, m1, m2, b, s1, s2] =
     (t = CHR ''T'' \<and> list_all is_digit [h1, h2, m1, m2, s1, s2] \<and>
      a = CHR '':'' \<and> b = CHR '':'')"
| "time_shape _ = False"

fun offset_shape :: "string \<Rightarrow> bool" where
  "offset_shape [sg, h1, h2, a, m1, m2] =
     ((sg = CHR ''+'' \<or> sg = CHR ''-'') \<and> list_all is_digit [h1, h2, m1, m2] \<and>
      a = CHR '':'')"
| "offset_shape _ = False"

definition sample_fromisoformat :: "string \<Rightarrow> bool" where
  "sample_fromisoformat s =
     (date_shape (take 10 s) \<and>
      (drop 10 s = [] \<or>
       time_shape (take 9 (drop 10 s)) \<and> (drop 19 s = [] \<or> offset_shape (drop 19 s))))"

definition hex_val :: "char \<Rightarrow> nat option" where
  "hex_val c =
     (if CHR ''0'' \<le> c \<and> c \<le> CHR ''9'' then Some (of_char c - 48)
      else if CHR ''a'' \<le> c \<and> c \<le> CHR ''f'' then Some (of_char c - 87)
      else if CHR ''A'' \<le> c \<and> c \<le> CHR ''F'' then Some (of_char c - 55)
      else None)"

fun hex_num :: "nat \<Rightarrow> string \<Rightarrow> nat option" where
  "hex_num acc [] = Some acc"
| "hex_num acc (c # cs) =
     (case hex_val c of None \<Rightarrow> None | Some d \<Rightarrow> hex_num (16 * acc + d) cs)"

definition sample_ObjectId :: "string \<Rightarrow> object_id option" where
  "sample_ObjectId s = (if length s = 24 then hex_num 0 s else None)"

definition hex_char :: "nat \<Rightarrow> char" where
  "hex_char d = ''0123456789abcdef'' ! d"

fun hex_of :: "nat \<Rightarrow> string" where
  "hex_of n = (if n < 16 then [hex_char n] else hex_of (n div 16) @ [hex_char (n mod 16)])"

definition sample_str_oid :: "object_id \<Rightarrow> string" where
  "sample_str_oid n = replicate (24 - length (hex_of n)) CHR ''0'' @ hex_of n"

definition sample_lib :: lib where
  "sample_lib =
     \<lparr>ObjectId = sample_ObjectId, str_oid = sample_str_oid,
      fromisoformat = sample_fromisoformat\<rparr>"

text \<open>A store with one teacher and three announcements: open, not yet started, expired.\<close>

definition now0 :: string where
  "now0 = ''2025-06-01T12:00:00+00:00''"

definition ann_open :: announcement_doc where
  "ann_open =
     \<lparr>oid = 0,
      doc_fields =
        [''message'' \<mapsto> Str ''Welcome back'',
         ''start_date'' \<mapsto> Null,
         ''expiration_date'' \<mapsto> Str ''2030-01-01T00:00:00+00:00'',
         ''created_by'' \<mapsto> Str ''mrodriguez'',
         ''created_at'' \<mapsto> Str ''2025-01-15T08:00:00+00:00'']\<rparr>"

definition ann_future :: announcement_doc where
  "ann_future =
     \<lparr>oid = 1,
      doc_fields =
        [''message'' \<mapsto> Str ''Science fair'',
         ''start_date'' \<mapsto> Str ''2029-09-01T00:00:00+00:00'',
         ''expiration_date'' \<mapsto> Str ''2030-01-01T00:00:00+00:00'',
         ''created_by'' \<mapsto> Str ''mrodriguez'',
         ''created_at'' \<mapsto> Str ''2025-01-15T08:00:00+00:00'']\<rparr>"

definition ann_past :: announcement_doc where
  "ann_past =
     \<lparr>oid = 2,
      doc_fields =
        [''message'' \<mapsto> Str ''Snow day'',
         ''start_date'' \<mapsto> Null,
         ''expiration_date'' \<mapsto> Str ''2000-01-01T00:00:00Z'',
         ''created_by'' \<mapsto> Str ''mrodriguez'',
         ''created_at'' \<mapsto> Str ''1999-12-01T08:00:00+00:00'']\<rparr>"

definition sample_store :: store where
  "sample_store =
     \<lparr>teachers_collection = {''mrodriguez''},
      announcements_collection = [ann_open, ann_future, ann_past],
      next_oid = 3\<rparr>"

text \<open>An announcement that expires at \<^const>\<open>now0\<close> exactly, alone in its store.\<close>

definition ann_edge :: announcement_doc where
  "ann_edge =
     \<lparr>oid = 0,
      doc_fields =
        [''message'' \<mapsto> Str ''Last call'',
         ''start_date'' \<mapsto> Null,
         ''expiration_date'' \<mapsto> Str ''2025-06-01T12:00:00+00:00'',
         ''created_by'' \<mapsto> Str ''mrodriguez'',
         ''created_at'' \<mapsto> Str ''2025-01-15T08:00:00+00:00'']\<rparr>"

definition edge_store :: store where
  "edge_store =
     \<lparr>teachers_collection = {''mrodriguez''},
      announcements_collection = [ann_edge],
      next_oid = 1\<rparr>"


section \<open>Facts about the store operations\<close>

declare hex_of.simps [simp del]


lemma set_fields_append: "set_fields f (u @ v) = set_fields (set_fields f u) v"
  by (induction u arbitrary: f) auto

lemma set_fields_other: "k \<notin> fst ` set u \<Longrightarrow> set_fields f u k = f k"
  by (induction u arbitrary: f) auto

lemma find_one_Some: "find_one ds i = Some d \<Longrightarrow> oid d = i \<and> d \<in> set ds"
  by (induction ds) (auto split: if_splits)

lemma find_one_None: "(find_one ds i = None) = (i \<notin> oid ` set ds)"
  by (induction ds) auto

lemma find_one_split:
  "find_one ds i = Some d \<Longrightarrow> \<exists>pre post. ds = pre @ d # post \<and> i \<notin> oid ` set pre"
proof (induction ds)
  case Nil
  then show ?case by simp
next
  case (Cons a ds)
  show ?case
  proof (cases "oid a = i")
    case True
    with Cons.prems have "a # ds = [] @ d # ds \<and> i \<notin> oid ` set []" by simp
    then show ?thesis by blast
  next
    case False
    with Cons obtain pre post where "ds = pre @ d # post" "i \<notin> oid ` set pre" by auto
    with False have "a # ds = (a # pre) @ d # post \<and> i \<notin> oid ` set (a # pre)" by auto
    then show ?thesis by blast
  qed
qed

lemma find_one_append:
  "i \<notin> oid ` set pre \<Longrightarrow> find_one (pre @ ds) i = find_one ds i"
  by (induction pre) auto

lemma update_one_append:
  "i \<notin> oid ` set pre \<Longrightarrow> update_one (pre @ ds) i u = pre @ update_one ds i u"
  by (induction pre) auto

lemma delete_one_append:
  "i \<notin> oid ` set pre \<Longrightarrow>
   delete_one (pre @ ds) i = (fst (delete_one ds i), pre @ snd (delete_one ds i))"
  by (induction pre) (auto split: prod.splits)

lemma delete_one_absent: "i \<notin> oid ` set ds \<Longrightarrow> delete_one ds i = (0, ds)"
  by (induction ds) auto

lemma delete_one_subset: "set (snd (delete_one ds i)) \<subseteq> set ds"
  by (induction ds) (auto split: prod.splits)

lemma delete_one_count: "fst (delete_one ds i) = (if i \<in> oid ` set ds then 1 else 0)"
  by (induction ds) (auto split: prod.splits)

lemma map_oid_update_one: "map oid (update_one ds i u) = map oid ds"
  by (induction ds) auto

lemma find_one_update_one:
  "find_one (update_one ds i u) i =
     map_option (\<lambda>d. d\<lparr>doc_fields := set_fields (doc_fields d) u\<rparr>) (find_one ds i)"
  by (induction ds) auto

section \<open>Facts about the update document\<close>

lemma build_update_doc_None:
  "(build_update_doc L a = None) =
     (\<exists>e. expiration_date_upd a = Some e \<and> \<not> fromisoformat L (replace_Z e))"
  by (auto simp: build_update_doc_def Let_def split: option.splits)

lemma build_update_doc_Nil:
  "(build_update_doc L a = Some []) =
     (message_upd a = None \<and> start_date_upd a = None \<and> expiration_date_upd a = None)"
  by (auto simp: build_update_doc_def Let_def split: option.splits)

lemma build_update_doc_message:
  "build_update_doc L a = Some u \<Longrightarrow>
   set_fields f u ''message'' =
     (case message_upd a of None \<Rightarrow> f ''message'' | Some m \<Rightarrow> Some (Str m))"
  by (auto simp: build_update_doc_def Let_def split: option.splits if_splits)

lemma build_update_doc_start_date:
  "build_update_doc L a = Some u \<Longrightarrow>
   set_fields f u ''start_date'' =
     (case start_date_upd a of None \<Rightarrow> f ''start_date'' | Some sd \<Rightarrow> Some (Str sd))"
  by (auto simp: build_update_doc_def Let_def split: option.splits if_splits)

lemma build_update_doc_expiration_date:
  "build_update_doc L a = Some u \<Longrightarrow>
   set_fields f u ''expiration_date'' =
     (case expiration_date_upd a of None \<Rightarrow> f ''expiration_date'' | Some e \<Rightarrow> Some (Str e))"
  by (auto simp: build_update_doc_def Let_def split: option.splits if_splits)

lemma build_update_doc_other:
  "build_update_doc L a = Some u \<Longrightarrow>
   k \<noteq> ''message'' \<Longrightarrow> k \<noteq> ''start_date'' \<Longrightarrow> k \<noteq> ''expiration_date'' \<Longrightarrow>
   set_fields f u k = f k"
  by (auto simp: build_update_doc_def Let_def split: option.splits if_splits)

section \<open>The results of the update handler\<close>

lemma update_announcement_success:
  assumes "username \<in> teachers_collection s"
    and "ObjectId L announcement_id = Some i"
    and "find_one (announcements_collection s) i = Some d"
    and "build_update_doc L a = Some u"
    and "u \<noteq> []"
  shows "update_announcement L announcement_id a username s =
           (Inr (stringify L (d\<lparr>doc_fields := set_fields (doc_fields d) u\<rparr>)),
            s\<lparr>announcements_collection := update_one (announcements_collection s) i u\<rparr>)"
  using assms by (simp add: update_announcement_def find_one_update_one)

lemma update_announcement_Inr:
  assumes "update_announcement L announcement_id a username s = (Inr r, s')"
  shows "\<exists>i d u. username \<in> teachers_collection s \<and>
           ObjectId L announcement_id = Some i \<and>
           find_one (announcements_collection s) i = Some d \<and>
           build_update_doc L a = Some u \<and> u \<noteq> [] \<and>
           r = stringify L (d\<lparr>doc_fields := set_fields (doc_fields d) u\<rparr>) \<and>
           s' = s\<lparr>announcements_collection := update_one (announcements_collection s) i u\<rparr>"
  using assms
  by (auto simp: update_announcement_def find_one_update_one
      split: if_splits option.splits)

lemma update_announcement_Inl:
  assumes "update_announcement L announcement_id a username s = (Inl e, s')"
  shows "s' = s"
  using assms
  by (auto simp: update_announcement_def find_one_update_one
      split: if_splits option.splits)

lemma replace_Z_Nil: "replace_Z [] = []"
  by (simp add: replace_Z_def)

lemma list_all_delete_one: "list_all P ds \<Longrightarrow> list_all P (snd (delete_one ds i))"
  using delete_one_subset [of ds i] by (auto simp: list_all_iff)

lemma list_all_update_one:
  assumes "list_all P ds"
    and "\<And>d. P d \<Longrightarrow> P (d\<lparr>doc_fields := set_fields (doc_fields d) u\<rparr>)"
  shows "list_all P (update_one ds i u)"
  using assms by (induction ds) auto

lemma distinct_delete_one:
  "distinct (map oid ds) \<Longrightarrow> distinct (map oid (snd (delete_one ds i)))"
proof (induction ds)
  case Nil
  then show ?case by simp
next
  case (Cons d ds)
  show ?case
  proof (cases "oid d = i")
    case True
    with Cons.prems show ?thesis by simp
  next
    case False
    from delete_one_subset [of ds i] Cons.prems
    have "oid d \<notin> oid ` set (snd (delete_one ds i))" by auto
    with False Cons show ?thesis by (auto split: prod.splits)
  qed
qed

section \<open>Facts about the requests\<close>

lemma post_announcement_Inr:
  assumes "post_announcement L now body username s = (Inr r, s')"
  shows "validate_AnnouncementCreate body \<and> username \<in> teachers_collection s \<and>
         \<not> create_dates_invalid L body \<and>
         r = [''message'' \<mapsto> Str (message body),
              ''start_date'' \<mapsto> opt_val (start_date body),
              ''expiration_date'' \<mapsto> Str (expiration_date body),
              ''created_by'' \<mapsto> Str username,
              ''created_at'' \<mapsto> Str now,
              ''_id'' \<mapsto> Str (str_oid L (next_oid s))] \<and>
         s' = s\<lparr>announcements_collection :=
                  announcements_collection s @
                  [\<lparr>oid = next_oid s,
                    doc_fields = [''message'' \<mapsto> Str (message body),
                                  ''start_date'' \<mapsto> opt_val (start_date body),
                                  ''expiration_date'' \<mapsto> Str (expiration_date body),
                                  ''created_by'' \<mapsto> Str username,
                                  ''created_at'' \<mapsto> Str now]\<rparr>],
                next_oid := Suc (next_oid s)\<rparr>"
  using assms
  by (auto simp: post_announcement_def create_announcement_def insert_one_def Let_def
      split: if_splits)

lemma post_announcement_success:
  assumes "validate_AnnouncementCreate body" and "username \<in> teachers_collection s"
    and "\<not> create_dates_invalid L body"
  shows "post_announcement L now body username s =
         (Inr [''message'' \<mapsto> Str (message body),
               ''start_date'' \<mapsto> opt_val (start_date body),
               ''expiration_date'' \<mapsto> Str (expiration_date body),
               ''created_by'' \<mapsto> Str username,
               ''created_at'' \<mapsto> Str now,
               ''_id'' \<mapsto> Str (str_oid L (next_oid s))],
          s\<lparr>announcements_collection :=
               announcements_collection s @
               [\<lparr>oid = next_oid s,
                 doc_fields = [''message'' \<mapsto> Str (message body),
                               ''start_date'' \<mapsto> opt_val (start_date body),
                               ''expiration_date'' \<mapsto> Str (expiration_date body),
                               ''created_by'' \<mapsto> Str username,
                               ''created_at'' \<mapsto> Str now]\<rparr>],
             next_oid := Suc (next_oid s)\<rparr>)"
  using assms
  by (simp add: post_announcement_def create_announcement_def insert_one_def Let_def)

lemma post_announcement_Inl:
  assumes "post_announcement L now body username s = (Inl e, s')"
  shows "s' = s"
  using assms
  by (auto simp: post_announcement_def create_announcement_def insert_one_def Let_def
      split: if_splits)

lemma put_announcement_Inr:
  assumes "put_announcement L announcement_id a username s = (Inr r, s')"
  shows "validate_AnnouncementUpdate a \<and>
         update_announcement L announcement_id a username s = (Inr r, s')"
  using assms by (auto simp: put_announcement_def split: if_splits)

lemma put_announcement_Inl:
  assumes "put_announcement L announcement_id a username s = (Inl e, s')"
  shows "s' = s"
  using assms update_announcement_Inl [of L announcement_id a username s e s']
  by (auto simp: put_announcement_def split: if_splits)

lemma delete_announcement_store:
  "\<exists>ds. snd (delete_announcement L announcement_id username s) =
          s\<lparr>announcements_collection := ds\<rparr> \<and>
        (ds = announcements_collection s \<or>
         (\<exists>i. ds = snd (delete_one (announcements_collection s) i)))"
proof (cases "username \<in> teachers_collection s")
  case False
  then have "snd (delete_announcement L announcement_id username s) =
      s\<lparr>announcements_collection := announcements_collection s\<rparr>"
    by (simp add: delete_announcement_def)
  then show ?thesis by blast
next
  case True
  show ?thesis
  proof (cases "ObjectId L announcement_id")
    case None
    with True have "snd (delete_announcement L announcement_id username s) =
        s\<lparr>announcements_collection := announcements_collection s\<rparr>"
      by (simp add: delete_announcement_def)
    then show ?thesis by blast
  next
    case (Some i)
    with True have "snd (delete_announcement L announcement_id username s) =
        s\<lparr>announcements_collection := snd (delete_one (announcements_collection s) i)\<rparr>"
      by (simp add: delete_announcement_def Let_def split: prod.splits)
    then show ?thesis by blast
  qed
qed

text \<open>
  A request changes the store in one of three ways: it appends a document built by
  \<^verbatim>\<open>create_announcement\<close> from a valid body, it applies a valid update document to one
  stored document, or it deletes one document. A property of documents that the first two
  establish or keep holds of the store after every sequence of requests.
\<close>

lemma handle_list_all:
  assumes "list_all P (announcements_collection s)"
    and "\<And>n now body username.
           validate_AnnouncementCreate body \<Longrightarrow> \<not> create_dates_invalid L body \<Longrightarrow>
           P \<lparr>oid = n,
              doc_fields = [''message'' \<mapsto> Str (message body),
                            ''start_date'' \<mapsto> opt_val (start_date body),
                            ''expiration_date'' \<mapsto> Str (expiration_date body),
                            ''created_by'' \<mapsto> Str username,
                            ''created_at'' \<mapsto> Str now]\<rparr>"
    and "\<And>a u d. validate_AnnouncementUpdate a \<Longrightarrow> build_update_doc L a = Some u \<Longrightarrow>
           P d \<Longrightarrow> P (d\<lparr>doc_fields := set_fields (doc_fields d) u\<rparr>)"
  shows "list_all P (announcements_collection (snd (handle L r s)))"
proof (cases r)
  case (Post now body username)
  show ?thesis
  proof (cases "post_announcement L now body username s")
    case (Pair res s')
    show ?thesis
    proof (cases res)
      case (Inl e)
      with Pair post_announcement_Inl [of L now body username s e s'] Post assms(1)
      show ?thesis by simp
    next
      case (Inr r')
      with Pair post_announcement_Inr [of L now body username s r' s'] Post assms(1)
      show ?thesis by (simp add: assms(2))
    qed
  qed
next
  case (Put announcement_id a username)
  show ?thesis
  proof (cases "put_announcement L announcement_id a username s")
    case (Pair res s')
    show ?thesis
    proof (cases res)
      case (Inl e)
      with Pair put_announcement_Inl [of L announcement_id a username s e s'] Put assms(1)
      show ?thesis by simp
    next
      case (Inr r')
      with Pair put_announcement_Inr [of L announcement_id a username s r' s']
      have v: "validate_AnnouncementUpdate a"
        and "update_announcement L announcement_id a username s = (Inr r', s')"
        by simp_all
      from update_announcement_Inr [OF this(2)] obtain i u where
        u: "build_update_doc L a = Some u" and
        s': "s' = s\<lparr>announcements_collection :=
                      update_one (announcements_collection s) i u\<rparr>"
        by blast
      from assms(1) assms(3) [OF v u]
      have "list_all P (update_one (announcements_collection s) i u)"
        by (rule list_all_update_one)
      with s' Pair Put show ?thesis by simp
    qed
  qed
next
  case (Delete announcement_id username)
  from delete_announcement_store [of L announcement_id username s] assms(1)
  have "list_all P
          (announcements_collection (snd (delete_announcement L announcement_id username s)))"
    by (auto simp: list_all_delete_one)
  with Delete show ?thesis by simp
qed

lemma run_list_all:
  assumes "list_all P (announcements_collection s)"
    and "\<And>n now body username.
           validate_AnnouncementCreate body \<Longrightarrow> \<not> create_dates_invalid L body \<Longrightarrow>
           P \<lparr>oid = n,
              doc_fields = [''message'' \<mapsto> Str (message body),
                            ''start_date'' \<mapsto> opt_val (start_date body),
                            ''expiration_date'' \<mapsto> Str (expiration_date body),
                            ''created_by'' \<mapsto> Str username,
                            ''created_at'' \<mapsto> Str now]\<rparr>"
    and "\<And>a u d. validate_AnnouncementUpdate a \<Longrightarrow> build_update_doc L a = Some u \<Longrightarrow>
           P d \<Longrightarrow> P (d\<lparr>doc_fields := set_fields (doc_fields d) u\<rparr>)"
  shows "list_all P (announcements_collection (run L rs s))"
  using assms(1)
proof (induction rs arbitrary: s)
  case Nil
  then show ?case by simp
next
  case (Cons r rs)
  from Cons.prems assms(2,3) have "list_all P (announcements_collection (snd (handle L r s)))"
    by (rule handle_list_all)
  from Cons.IH [OF this] show ?case by simp
qed

text \<open>The identifiers in use and the identifier assigned next, across requests.\<close>

lemma handle_oids:
  "oid ` set (announcements_collection (snd (handle L r s))) \<subseteq>
     oid ` set (announcements_collection s) \<union>
     {n. next_oid s \<le> n \<and> n < next_oid (snd (handle L r s))} \<and>
   next_oid s \<le> next_oid (snd (handle L r s))"
proof (cases r)
  case (Post now body username)
  show ?thesis
  proof (cases "post_announcement L now body username s")
    case (Pair res s')
    show ?thesis
    proof (cases res)
      case (Inl e)
      with Pair post_announcement_Inl [of L now body username s e s'] Post
      show ?thesis by auto
    next
      case (Inr r')
      with Pair post_announcement_Inr [of L now body username s r' s'] Post
      show ?thesis by auto
    qed
  qed
next
  case (Put announcement_id a username)
  show ?thesis
  proof (cases "put_announcement L announcement_id a username s")
    case (Pair res s')
    show ?thesis
    proof (cases res)
      case (Inl e)
      with Pair put_announcement_Inl [of L announcement_id a username s e s'] Put
      show ?thesis by auto
    next
      case (Inr r')
      with Pair put_announcement_Inr [of L announcement_id a username s r' s']
      have "update_announcement L announcement_id a username s = (Inr r', s')"
        by simp
      from update_announcement_Inr [OF this] obtain i u where
        s': "s' = s\<lparr>announcements_collection :=
                      update_one (announcements_collection s) i u\<rparr>"
        by blast
      have "oid ` set (update_one (announcements_collection s) i u) =
            oid ` set (announcements_collection s)"
        using map_oid_update_one [of "announcements_collection s" i u]
        by (metis set_map)
      with s' Pair Put show ?thesis by simp
    qed
  qed
next
  case (Delete announcement_id username)
  from delete_announcement_store [of L announcement_id username s] obtain ds where
    s': "snd (delete_announcement L announcement_id username s) =
           s\<lparr>announcements_collection := ds\<rparr>" and
    ds: "ds = announcements_collection s \<or>
         (\<exists>i. ds = snd (delete_one (announcements_collection s) i))"
    by blast
  from ds delete_one_subset have "set ds \<subseteq> set (announcements_collection s)"
    by auto
  with s' Delete show ?thesis by auto
qed

lemma run_next_oid: "next_oid s \<le> next_oid (run L rs s)"
proof (induction rs arbitrary: s)
  case Nil
  then show ?case by simp
next
  case (Cons r rs)
  from handle_oids [of L r s] have "next_oid s \<le> next_oid (snd (handle L r s))" by simp
  with Cons [of "snd (handle L r s)"] show ?case by simp
qed

lemma run_absent:
  "i \<notin> oid ` set (announcements_collection s) \<Longrightarrow> i < next_oid s \<Longrightarrow>
   i \<notin> oid ` set (announcements_collection (run L rs s))"
proof (induction rs arbitrary: s)
  case Nil
  then show ?case by simp
next
  case (Cons r rs)
  from handle_oids [of L r s] Cons.prems
  have "i \<notin> oid ` set (announcements_collection (snd (handle L r s)))"
    and "i < next_oid (snd (handle L r s))"
    by auto
  from Cons.IH [OF this] show ?case by simp
qed

lemma handle_store_ok:
  assumes "store_ok s"
  shows "store_ok (snd (handle L r s))"
proof (cases r)
  case (Post now body username)
  show ?thesis
  proof (cases "post_announcement L now body username s")
    case (Pair res s')
    show ?thesis
    proof (cases res)
      case (Inl e)
      with Pair post_announcement_Inl [of L now body username s e s'] Post assms
      show ?thesis by simp
    next
      case (Inr r')
      with Pair post_announcement_Inr [of L now body username s r' s'] Post assms
      show ?thesis by (auto simp: store_ok_def list_all_iff less_Suc_eq)
    qed
  qed
next
  case (Put announcement_id a username)
  show ?thesis
  proof (cases "put_announcement L announcement_id a username s")
    case (Pair res s')
    show ?thesis
    proof (cases res)
      case (Inl e)
      with Pair put_announcement_Inl [of L announcement_id a username s e s'] Put assms
      show ?thesis by simp
    next
      case (Inr r')
      with Pair put_announcement_Inr [of L announcement_id a username s r' s']
      have "update_announcement L announcement_id a username s = (Inr r', s')"
        by simp
      from update_announcement_Inr [OF this] obtain i u where
        s': "s' = s\<lparr>announcements_collection :=
                      update_one (announcements_collection s) i u\<rparr>"
        by blast
      have m: "map oid (update_one (announcements_collection s) i u) =
               map oid (announcements_collection s)"
        by (rule map_oid_update_one)
      from assms have "list_all (\<lambda>d. oid d < next_oid s) (announcements_collection s)"
        by (simp add: store_ok_def)
      then have "list_all (\<lambda>d. oid d < next_oid s)
                   (update_one (announcements_collection s) i u)"
        by (rule list_all_update_one) simp
      with m s' assms have "store_ok s'"
        by (simp add: store_ok_def)
      with Pair Put show ?thesis by simp
    qed
  qed
next
  case (Delete announcement_id username)
  from delete_announcement_store [of L announcement_id username s] obtain ds where
    s': "snd (delete_announcement L announcement_id username s) =
           s\<lparr>announcements_collection := ds\<rparr>" and
    ds: "ds = announcements_collection s \<or>
         (\<exists>i. ds = snd (delete_one (announcements_collection s) i))"
    by blast
  from ds assms have "distinct (map oid ds)"
    by (auto simp: store_ok_def distinct_delete_one)
  moreover from ds assms have "list_all (\<lambda>d. oid d < next_oid s) ds"
    by (auto simp: store_ok_def list_all_delete_one)
  ultimately show ?thesis using s' Delete by (simp add: store_ok_def)
qed

lemma run_store_ok: "store_ok s \<Longrightarrow> store_ok (run L rs s)"
proof (induction rs arbitrary: s)
  case Nil
  then show ?case by simp
next
  case (Cons r rs)
  from handle_store_ok [OF Cons.prems, of L r] Cons.IH show ?case by simp
qed

section \<open>Facts about the sample library\<close>

lemma hex_val_hex_char: "d < 16 \<Longrightarrow> hex_val (hex_char d) = Some d"
proof -
  assume "d < 16"
  then have "d \<in> {0, 1, 2, 3, 4, 5, 6, 7, 8, 9, 10, 11, 12, 13, 14, 15}" by simp arith
  then show ?thesis by (auto simp: hex_char_def hex_val_def)
qed

lemma hex_num_append:
  "hex_num acc (xs @ ys) = (case hex_num acc xs of None \<Rightarrow> None | Some v \<Rightarrow> hex_num v ys)"
  by (induction xs arbitrary: acc) (auto split: option.splits)

lemma hex_num_hex_of: "hex_num 0 (hex_of n) = Some n"
proof (induction n rule: hex_of.induct)
  case (1 n)
  show ?case
  proof (cases "n < 16")
    case True
    then show ?thesis by (simp add: hex_of.simps [of n] hex_val_hex_char)
  next
    case False
    with 1 have "hex_num 0 (hex_of (n div 16)) = Some (n div 16)" by simp
    with False show ?thesis
      by (simp add: hex_of.simps [of n] hex_num_append hex_val_hex_char)
  qed
qed

lemma hex_num_zeros: "hex_num 0 (replicate k CHR ''0'' @ xs) = hex_num 0 xs"
  by (induction k) (simp_all add: hex_val_def)

lemma inj_sample_str_oid: "inj sample_str_oid"
proof (rule injI)
  fix m n
  assume "sample_str_oid m = sample_str_oid n"
  then have "hex_num 0 (sample_str_oid m) = hex_num 0 (sample_str_oid n)" by simp
  then show "m = n" by (simp add: sample_str_oid_def hex_num_zeros hex_num_hex_of)
qed

lemma sample_lib_blank: "\<not> fromisoformat sample_lib []"
  by (simp add: sample_lib_def sample_fromisoformat_def)


section \<open>Listing the active announcements\<close>

lemma not_started_case:
  "not_started v now = (case v of Some (Str d) \<Rightarrow> d \<noteq> [] \<and> now < d | _ \<Rightarrow> False)"
  by (cases "(v, now)" rule: not_started.cases) simp_all

lemma has_expired_case:
  "has_expired v now = (case v of Some (Str d) \<Rightarrow> d \<noteq> [] \<and> d < now | _ \<Rightarrow> False)"
  by (cases "(v, now)" rule: has_expired.cases) simp_all

lemma active_loop_filter:
  "active_loop L now as =
     map (stringify L)
       (filter (\<lambda>a. \<not> (not_started (doc_fields a ''start_date'') now \<or>
                        has_expired (doc_fields a ''expiration_date'') now)) as)"
  by (induction as) simp_all

text \<open>
  The stored expiration dates are never the empty string: every expiration date that
  \<^verbatim>\<open>create_announcement\<close> or \<^verbatim>\<open>update_announcement\<close> writes has been parsed, and the
  empty string does not parse.
\<close>

lemma run_expiration_set:
  assumes "\<not> fromisoformat L []"
    and "list_all (\<lambda>a. doc_fields a ''expiration_date'' \<noteq> Some (Str []))
           (announcements_collection s)"
  shows "list_all (\<lambda>a. doc_fields a ''expiration_date'' \<noteq> Some (Str []))
           (announcements_collection (run L rs s))"
proof (rule run_list_all [OF assms(2)])
  fix n now body username
  assume "\<not> create_dates_invalid L body"
  with assms(1) have "expiration_date body \<noteq> []"
    by (auto simp: create_dates_invalid_def replace_Z_Nil split: if_splits)
  then show "doc_fields
          \<lparr>oid = n,
             doc_fields = [''message'' \<mapsto> Str (message body),
                           ''start_date'' \<mapsto> opt_val (start_date body),
                           ''expiration_date'' \<mapsto> Str (expiration_date body),
                           ''created_by'' \<mapsto> Str username,
                           ''created_at'' \<mapsto> Str now]\<rparr>
          ''expiration_date'' \<noteq> Some (Str [])"
    by simp
next
  fix a u d
  assume u: "build_update_doc L a = Some u"
    and d: "doc_fields d ''expiration_date'' \<noteq> Some (Str [])"
  have "e \<noteq> []" if "expiration_date_upd a = Some e" for e
    using that u assms(1) build_update_doc_None [of L a] by (auto simp: replace_Z_Nil)
  with d build_update_doc_expiration_date [OF u, of "doc_fields d"]
  show "doc_fields (d\<lparr>doc_fields := set_fields (doc_fields d) u\<rparr>) ''expiration_date'' \<noteq>
        Some (Str [])"
    by (auto split: option.splits)
qed

lemma excluded_spec:
  assumes "doc_fields a ''expiration_date'' \<noteq> Some (Str [])"
  shows "(not_started (doc_fields a ''start_date'') now \<or>
          has_expired (doc_fields a ''expiration_date'') now) = spec_excluded now a"
  using assms
  by (auto simp: spec_excluded_def not_started_case has_expired_case
      split: option.splits val.splits)

lemma active_loop_spec:
  assumes "list_all (\<lambda>a. doc_fields a ''expiration_date'' \<noteq> Some (Str [])) as"
  shows "active_loop L now as =
           map (\<lambda>a. (doc_fields a)(''_id'' \<mapsto> Str (str_oid L (oid a))))
             (filter (\<lambda>a. \<not> spec_excluded now a) as)"
  using assms
proof (induction as)
  case Nil
  then show ?case by simp
next
  case (Cons a as)
  then have "doc_fields a ''expiration_date'' \<noteq> Some (Str [])" by simp
  from excluded_spec [OF this, of now] Cons show ?case
    by (auto simp: stringify_def)
qed

text \<open>
  Claim C1. In every store that a sequence of requests has produced, the list of active
  announcements is the stored list, in order, without the announcements whose
  \<^verbatim>\<open>start_date\<close> is present and greater than the current timestamp or whose
  \<^verbatim>\<open>expiration_date\<close> is present and less than it; each announcement listed is the stored
  document with \<^verbatim>\<open>_id\<close> set to the string of its identifier. The result does not depend
  on the teachers collection: the operation takes no username. The requests start from
  a store without an empty expiration date, the empty store for one, and the library
  does not parse the empty string.
\<close>

theorem get_active_announcements_filter:
  assumes "\<not> fromisoformat L []"
    and "list_all (\<lambda>a. doc_fields a ''expiration_date'' \<noteq> Some (Str []))
           (announcements_collection s0)"
    and "s = run L rs s0"
  shows "get_active_announcements L now s =
           map (\<lambda>a. (doc_fields a)(''_id'' \<mapsto> Str (str_oid L (oid a))))
             (filter (\<lambda>a. \<not> spec_excluded now a) (announcements_collection s)) \<and>
         get_active_announcements L now (s\<lparr>teachers_collection := T\<rparr>) =
           get_active_announcements L now s"
proof -
  from run_expiration_set [OF assms(1,2), of rs] assms(3)
  have "list_all (\<lambda>a. doc_fields a ''expiration_date'' \<noteq> Some (Str []))
          (announcements_collection s)"
    by simp
  then show ?thesis
    by (simp add: get_active_announcements_def active_loop_spec)
qed

theorem get_active_announcements_filter_witness:
  "\<not> fromisoformat sample_lib [] \<and>
   list_all (\<lambda>a. doc_fields a ''expiration_date'' \<noteq> Some (Str []))
     (announcements_collection sample_store) \<and>
   get_active_announcements sample_lib now0
     (run sample_lib
        [Post ''2025-05-01T09:00:00+00:00''
           \<lparr>message = ''Field trip'', start_date = None,
              expiration_date = ''2026-01-01T00:00:00Z''\<rparr> ''mrodriguez'',
         Delete ''000000000000000000000001'' ''mrodriguez'']
        sample_store) =
     [(doc_fields ann_open)(''_id'' \<mapsto> Str (str_oid sample_lib 0)),
      [''message'' \<mapsto> Str ''Field trip'',
       ''start_date'' \<mapsto> Null,
       ''expiration_date'' \<mapsto> Str ''2026-01-01T00:00:00Z'',
       ''created_by'' \<mapsto> Str ''mrodriguez'',
       ''created_at'' \<mapsto> Str ''2025-05-01T09:00:00+00:00'',
       ''_id'' \<mapsto> Str (str_oid sample_lib 3)]]"
proof -
  let ?body = "\<lparr>message = ''Field trip'', start_date = None,
                 expiration_date = ''2026-01-01T00:00:00Z''\<rparr>"
  let ?new = "\<lparr>oid = 3,
      doc_fields = [''message'' \<mapsto> Str ''Field trip'',
                    ''start_date'' \<mapsto> Null,
                    ''expiration_date'' \<mapsto> Str ''2026-01-01T00:00:00Z'',
                    ''created_by'' \<mapsto> Str ''mrodriguez'',
                    ''created_at'' \<mapsto> Str ''2025-05-01T09:00:00+00:00'']\<rparr>"
  have o: "oid ann_open = 0" "oid ann_future = 1" "oid ann_past = 2"
    by (simp_all add: ann_open_def ann_future_def ann_past_def)
  have b: "list_all (\<lambda>a. doc_fields a ''expiration_date'' \<noteq> Some (Str []))
     (announcements_collection sample_store)"
    by (simp add: sample_store_def ann_open_def ann_future_def ann_past_def)
  have v: "validate_AnnouncementCreate ?body"
    by (simp add: validate_AnnouncementCreate_def valid_message_def)
  have t: "''mrodriguez'' \<in> teachers_collection sample_store"
    by (simp add: sample_store_def)
  have p: "\<not> create_dates_invalid sample_lib ?body"
    by (simp add: create_dates_invalid_def sample_lib_def sample_fromisoformat_def
        replace_Z_def is_digit_def)
  have i: "ObjectId sample_lib ''000000000000000000000001'' = Some 1"
    by (simp add: sample_lib_def sample_ObjectId_def hex_val_def)
  have 1: "snd (handle sample_lib (Post ''2025-05-01T09:00:00+00:00'' ?body ''mrodriguez'')
             sample_store) =
           sample_store\<lparr>announcements_collection := [ann_open, ann_future, ann_past, ?new],
                        next_oid := 4\<rparr>"
    using post_announcement_success [OF v t p, of "''2025-05-01T09:00:00+00:00''"]
    by (simp add: sample_store_def opt_val_def)
  have 2: "snd (handle sample_lib (Delete ''000000000000000000000001'' ''mrodriguez'')
             (sample_store\<lparr>announcements_collection :=
                              [ann_open, ann_future, ann_past, ?new],
                           next_oid := 4\<rparr>)) =
           sample_store\<lparr>announcements_collection := [ann_open, ann_past, ?new],
                        next_oid := 4\<rparr>"
    using t i by (simp add: delete_announcement_def o)
  have r: "run sample_lib
        [Post ''2025-05-01T09:00:00+00:00'' ?body ''mrodriguez'',
         Delete ''000000000000000000000001'' ''mrodriguez'']
        sample_store =
        sample_store\<lparr>announcements_collection := [ann_open, ann_past, ?new],
                     next_oid := 4\<rparr>"
    using 1 2 by simp
  have e: "\<not> spec_excluded now0 ann_open" "spec_excluded now0 ann_past"
    "\<not> spec_excluded now0 ?new"
    by (simp_all add: spec_excluded_def now0_def ann_open_def ann_past_def)
  from get_active_announcements_filter [OF sample_lib_blank b r [symmetric], of now0 "{}"]
  have "get_active_announcements sample_lib now0
          (sample_store\<lparr>announcements_collection := [ann_open, ann_past, ?new],
                        next_oid := 4\<rparr>) =
        [(doc_fields ann_open)(''_id'' \<mapsto> Str (str_oid sample_lib 0)),
         (doc_fields ?new)(''_id'' \<mapsto> Str (str_oid sample_lib 3))]"
    by (simp add: e o)
  with r b sample_lib_blank show ?thesis by simp
qed

text \<open>
  Claim C2, as amended. An announcement whose \<^verbatim>\<open>expiration_date\<close> equals the current
  timestamp has not expired: it is listed whenever it has started. The expiration bound is
  inclusive, the test being \<^verbatim>\<open>expiration_date < current_date\<close>.
\<close>

theorem expiration_equal_now_listed:
  assumes "a \<in> set (announcements_collection s)"
    and "doc_fields a ''expiration_date'' = Some (Str now)"
    and "\<not> not_started (doc_fields a ''start_date'') now"
  shows "\<not> has_expired (doc_fields a ''expiration_date'') now \<and>
         stringify L a \<in> set (get_active_announcements L now s)"
  using assms by (simp add: get_active_announcements_def active_loop_filter)

theorem expiration_equal_now_listed_witness:
  "ann_edge \<in> set (announcements_collection edge_store) \<and>
   doc_fields ann_edge ''expiration_date'' = Some (Str now0) \<and>
   \<not> not_started (doc_fields ann_edge ''start_date'') now0 \<and>
   stringify sample_lib ann_edge \<in> set (get_active_announcements sample_lib now0 edge_store)"
  using expiration_equal_now_listed [of ann_edge edge_store now0 sample_lib]
  by (simp add: ann_edge_def now0_def edge_store_def)

text \<open>
  Claim C2 as stated fails: the announcement of \<^const>\<open>edge_store\<close> expires at the current
  timestamp and is listed.
\<close>

theorem expiration_equal_now_counterexample:
  "doc_fields ann_edge ''expiration_date'' = Some (Str now0) \<and>
   get_active_announcements sample_lib now0 edge_store = [stringify sample_lib ann_edge]"
  by (simp add: get_active_announcements_def now0_def ann_edge_def edge_store_def)


section \<open>Authorization\<close>

text \<open>
  Claim C4, as amended. When the username has no teacher record, the three handlers fail
  with status 401, whatever the identifier, the dates and the fields of the body, and
  leave the store as it was. A request reaches its handler only with a body that passes
  the field constraints: a create or update request whose message violates the length
  bounds is rejected before the authorization check, the store again as it was.
\<close>

theorem unauthorized_rejected:
  assumes "username \<notin> teachers_collection s"
  shows "create_announcement L now body username s =
           (Inl (HTTPException 401 ''Authentication required''), s) \<and>
         update_announcement L announcement_id upd username s =
           (Inl (HTTPException 401 ''Authentication required''), s) \<and>
         delete_announcement L announcement_id username s =
           (Inl (HTTPException 401 ''Authentication required''), s) \<and>
         kind (HTTPException 401 ''Authentication required'') = Some Unauthorized \<and>
         post_announcement L now body username s =
           (Inl (if validate_AnnouncementCreate body
                   then HTTPException 401 ''Authentication required''
                 else ValidationError), s) \<and>
         put_announcement L announcement_id upd username s =
           (Inl (if validate_AnnouncementUpdate upd
                   then HTTPException 401 ''Authentication required''
                 else ValidationError), s) \<and>
         handle L (Delete announcement_id username) s =
           (Inl (HTTPException 401 ''Authentication required''), s)"
  using assms
  by (simp add: create_announcement_def update_announcement_def delete_announcement_def
      post_announcement_def put_announcement_def)

theorem unauthorized_rejected_witness:
  "''intruder'' \<notin> teachers_collection sample_store \<and>
   create_announcement sample_lib now0
     \<lparr>message = ''Hello'', start_date = Some ''next week'', expiration_date = ''soon''\<rparr>
     ''intruder'' sample_store =
     (Inl (HTTPException 401 ''Authentication required''), sample_store) \<and>
   update_announcement sample_lib ''xyz''
     \<lparr>message_upd = None, start_date_upd = None, expiration_date_upd = None\<rparr>
     ''intruder'' sample_store =
     (Inl (HTTPException 401 ''Authentication required''), sample_store) \<and>
   delete_announcement sample_lib ''xyz'' ''intruder'' sample_store =
     (Inl (HTTPException 401 ''Authentication required''), sample_store)"
  using unauthorized_rejected [where username = "''intruder''" and s = sample_store
      and L = sample_lib and now = now0 and announcement_id = "''xyz''"
      and body = "\<lparr>message = ''Hello'', start_date = Some ''next week'',
                     expiration_date = ''soon''\<rparr>"
      and upd = "\<lparr>message_upd = None, start_date_upd = None, expiration_date_upd = None\<rparr>"]
  by (simp add: sample_store_def)

text \<open>
  Claim C4 as stated fails on a create request with an empty message from a username
  without a teacher record: the body is rejected for its message, not for the username.
\<close>

theorem unauthorized_empty_message_counterexample:
  "''intruder'' \<notin> teachers_collection sample_store \<and>
   post_announcement sample_lib now0
     \<lparr>message = [], start_date = None, expiration_date = ''2030-01-01T00:00:00+00:00''\<rparr>
     ''intruder'' sample_store = (Inl ValidationError, sample_store) \<and>
   kind ValidationError = Some InvalidArgument"
  by (simp add: post_announcement_def validate_AnnouncementCreate_def valid_message_def
      sample_store_def)

section \<open>Updating an announcement\<close>

text \<open>
  Claim C5, as amended. An update request of a teacher whose body fails the field
  constraints is rejected before the handler runs, whatever the identifier. A request
  whose body passes them fails, in this order of precedence: with status 400 when the
  identifier is not well formed; with 404 when no announcement has the identifier; with
  400 when the expiration date given does not parse; with 400 when the body has no
  field. Every failure leaves the store as it was.
\<close>

theorem put_announcement_errors:
  assumes "username \<in> teachers_collection s"
  shows "(\<not> validate_AnnouncementUpdate a \<longrightarrow>
            put_announcement L announcement_id a username s = (Inl ValidationError, s)) \<and>
         (validate_AnnouncementUpdate a \<and> ObjectId L announcement_id = None \<longrightarrow>
            put_announcement L announcement_id a username s =
              (Inl (HTTPException 400 ''Invalid announcement ID''), s)) \<and>
         (\<forall>i. validate_AnnouncementUpdate a \<and> ObjectId L announcement_id = Some i \<and>
               find_one (announcements_collection s) i = None \<longrightarrow>
            put_announcement L announcement_id a username s =
              (Inl (HTTPException 404 ''Announcement not found''), s)) \<and>
         (\<forall>i d e. validate_AnnouncementUpdate a \<and> ObjectId L announcement_id = Some i \<and>
               find_one (announcements_collection s) i = Some d \<and>
               expiration_date_upd a = Some e \<and> \<not> fromisoformat L (replace_Z e) \<longrightarrow>
            put_announcement L announcement_id a username s =
              (Inl (HTTPException 400 ''Invalid date format''), s)) \<and>
         (\<forall>i d. validate_AnnouncementUpdate a \<and> ObjectId L announcement_id = Some i \<and>
               find_one (announcements_collection s) i = Some d \<and>
               message_upd a = None \<and> start_date_upd a = None \<and>
               expiration_date_upd a = None \<longrightarrow>
            put_announcement L announcement_id a username s =
              (Inl (HTTPException 400 ''No fields to update''), s)) \<and>
         (\<forall>e s'. put_announcement L announcement_id a username s = (Inl e, s') \<longrightarrow>
            s' = s) \<and>
         kind ValidationError = Some InvalidArgument \<and>
         kind (HTTPException 400 ''Invalid announcement ID'') = Some InvalidArgument \<and>
         kind (HTTPException 404 ''Announcement not found'') = Some NotFound \<and>
         kind (HTTPException 400 ''Invalid date format'') = Some InvalidArgument \<and>
         kind (HTTPException 400 ''No fields to update'') = Some InvalidArgument"
proof -
  have 0: "\<not> validate_AnnouncementUpdate a \<longrightarrow>
            put_announcement L announcement_id a username s = (Inl ValidationError, s)"
    by (simp add: put_announcement_def)
  have 1: "validate_AnnouncementUpdate a \<and> ObjectId L announcement_id = None \<longrightarrow>
            put_announcement L announcement_id a username s =
              (Inl (HTTPException 400 ''Invalid announcement ID''), s)"
    using assms by (simp add: put_announcement_def update_announcement_def)
  have 2: "\<forall>i. validate_AnnouncementUpdate a \<and> ObjectId L announcement_id = Some i \<and>
               find_one (announcements_collection s) i = None \<longrightarrow>
            put_announcement L announcement_id a username s =
              (Inl (HTTPException 404 ''Announcement not found''), s)"
    using assms by (simp add: put_announcement_def update_announcement_def)
  have 3: "\<forall>i d e. validate_AnnouncementUpdate a \<and> ObjectId L announcement_id = Some i \<and>
               find_one (announcements_collection s) i = Some d \<and>
               expiration_date_upd a = Some e \<and> \<not> fromisoformat L (replace_Z e) \<longrightarrow>
            put_announcement L announcement_id a username s =
              (Inl (HTTPException 400 ''Invalid date format''), s)"
  proof (intro allI impI)
    fix i d e
    assume h: "validate_AnnouncementUpdate a \<and> ObjectId L announcement_id = Some i \<and>
               find_one (announcements_collection s) i = Some d \<and>
               expiration_date_upd a = Some e \<and> \<not> fromisoformat L (replace_Z e)"
    then have "build_update_doc L a = None" by (simp add: build_update_doc_None)
    with h assms show "put_announcement L announcement_id a username s =
              (Inl (HTTPException 400 ''Invalid date format''), s)"
      by (simp add: put_announcement_def update_announcement_def)
  qed
  have 4: "\<forall>i d. validate_AnnouncementUpdate a \<and> ObjectId L announcement_id = Some i \<and>
               find_one (announcements_collection s) i = Some d \<and>
               message_upd a = None \<and> start_date_upd a = None \<and>
               expiration_date_upd a = None \<longrightarrow>
            put_announcement L announcement_id a username s =
              (Inl (HTTPException 400 ''No fields to update''), s)"
  proof (intro allI impI)
    fix i d
    assume h: "validate_AnnouncementUpdate a \<and> ObjectId L announcement_id = Some i \<and>
               find_one (announcements_collection s) i = Some d \<and>
               message_upd a = None \<and> start_date_upd a = None \<and>
               expiration_date_upd a = None"
    then have "build_update_doc L a = Some []" by (simp add: build_update_doc_Nil)
    with h assms show "put_announcement L announcement_id a username s =
              (Inl (HTTPException 400 ''No fields to update''), s)"
      by (simp add: put_announcement_def update_announcement_def)
  qed
  have 5: "\<forall>e s'. put_announcement L announcement_id a username s = (Inl e, s') \<longrightarrow>
            s' = s"
    using put_announcement_Inl by blast
  from 0 1 2 3 4 5 show ?thesis by simp
qed

theorem put_announcement_errors_witness:
  "''mrodriguez'' \<in> teachers_collection sample_store \<and>
   put_announcement sample_lib ''000000000000000000000009''
     \<lparr>message_upd = Some [], start_date_upd = None, expiration_date_upd = Some ''soon''\<rparr>
     ''mrodriguez'' sample_store = (Inl ValidationError, sample_store) \<and>
   put_announcement sample_lib ''xyz''
     \<lparr>message_upd = None, start_date_upd = None, expiration_date_upd = Some ''soon''\<rparr>
     ''mrodriguez'' sample_store =
     (Inl (HTTPException 400 ''Invalid announcement ID''), sample_store) \<and>
   put_announcement sample_lib ''000000000000000000000009''
     \<lparr>message_upd = None, start_date_upd = None, expiration_date_upd = Some ''soon''\<rparr>
     ''mrodriguez'' sample_store =
     (Inl (HTTPException 404 ''Announcement not found''), sample_store) \<and>
   put_announcement sample_lib ''000000000000000000000001''
     \<lparr>message_upd = None, start_date_upd = None, expiration_date_upd = Some ''soon''\<rparr>
     ''mrodriguez'' sample_store =
     (Inl (HTTPException 400 ''Invalid date format''), sample_store) \<and>
   put_announcement sample_lib ''000000000000000000000001''
     \<lparr>message_upd = None, start_date_upd = None, expiration_date_upd = None\<rparr>
     ''mrodriguez'' sample_store =
     (Inl (HTTPException 400 ''No fields to update''), sample_store)"
proof -
  let ?soon = "\<lparr>message_upd = None, start_date_upd = None,
                 expiration_date_upd = Some ''soon''\<rparr>"
  let ?none = "\<lparr>message_upd = None, start_date_upd = None, expiration_date_upd = None\<rparr>"
  let ?blank = "\<lparr>message_upd = Some [], start_date_upd = None,
                  expiration_date_upd = Some ''soon''\<rparr>"
  have t: "''mrodriguez'' \<in> teachers_collection sample_store"
    by (simp add: sample_store_def)
  have v: "\<not> validate_AnnouncementUpdate ?blank" "validate_AnnouncementUpdate ?soon"
    "validate_AnnouncementUpdate ?none"
    by (simp_all add: validate_AnnouncementUpdate_def valid_message_def)
  have i1: "ObjectId sample_lib ''xyz'' = None"
    by (simp add: sample_lib_def sample_ObjectId_def)
  have i2: "ObjectId sample_lib ''000000000000000000000009'' = Some 9"
    by (simp add: sample_lib_def sample_ObjectId_def hex_val_def)
  have i3: "ObjectId sample_lib ''000000000000000000000001'' = Some 1"
    by (simp add: sample_lib_def sample_ObjectId_def hex_val_def)
  have f2: "find_one (announcements_collection sample_store) 9 = None"
    by (simp add: sample_store_def ann_open_def ann_future_def ann_past_def)
  have f3: "find_one (announcements_collection sample_store) 1 = Some ann_future"
    by (simp add: sample_store_def ann_open_def ann_future_def ann_past_def)
  have p: "\<not> fromisoformat sample_lib (replace_Z ''soon'')"
    by (simp add: sample_lib_def sample_fromisoformat_def replace_Z_def)
  note e = put_announcement_errors [OF t, where L = sample_lib]
  from e [where announcement_id = "''000000000000000000000009''" and a = ?blank] v
  have 0: "put_announcement sample_lib ''000000000000000000000009'' ?blank
     ''mrodriguez'' sample_store = (Inl ValidationError, sample_store)"
    by simp
  from e [where announcement_id = "''xyz''" and a = ?soon] v i1
  have 1: "put_announcement sample_lib ''xyz'' ?soon ''mrodriguez'' sample_store =
     (Inl (HTTPException 400 ''Invalid announcement ID''), sample_store)"
    by simp
  from e [where announcement_id = "''000000000000000000000009''" and a = ?soon] v i2 f2
  have 2: "put_announcement sample_lib ''000000000000000000000009'' ?soon
     ''mrodriguez'' sample_store =
     (Inl (HTTPException 404 ''Announcement not found''), sample_store)"
    by simp
  from e [where announcement_id = "''000000000000000000000001''" and a = ?soon] v i3 f3 p
  have 3: "put_announcement sample_lib ''000000000000000000000001'' ?soon
     ''mrodriguez'' sample_store =
     (Inl (HTTPException 400 ''Invalid date format''), sample_store)"
    by simp
  from e [where announcement_id = "''000000000000000000000001''" and a = ?none] v i3 f3
  have 4: "put_announcement sample_lib ''000000000000000000000001'' ?none
     ''mrodriguez'' sample_store =
     (Inl (HTTPException 400 ''No fields to update''), sample_store)"
    by simp
  from t 0 1 2 3 4 show ?thesis by simp
qed

text \<open>
  Claim C5 as stated fails on an update request of a teacher with a well-formed
  identifier that no announcement has and an empty message: the body is rejected for its
  message, and the request does not end with status 404.
\<close>

theorem put_empty_message_counterexample:
  "''mrodriguez'' \<in> teachers_collection sample_store \<and>
   ObjectId sample_lib ''000000000000000000000009'' = Some 9 \<and>
   find_one (announcements_collection sample_store) 9 = None \<and>
   put_announcement sample_lib ''000000000000000000000009''
     \<lparr>message_upd = Some [], start_date_upd = None, expiration_date_upd = None\<rparr>
     ''mrodriguez'' sample_store = (Inl ValidationError, sample_store) \<and>
   kind ValidationError = Some InvalidArgument"
  by (simp add: put_announcement_def validate_AnnouncementUpdate_def valid_message_def
      sample_store_def sample_lib_def sample_ObjectId_def hex_val_def
      ann_open_def ann_future_def ann_past_def)

text \<open>
  Claim C10, as amended. On update the start date is not parsed. An update request of a
  teacher for a stored announcement that gives a start date succeeds exactly when the
  body passes the field constraints and the expiration date, when given, parses: then
  the string given, whatever it is, is the start date of the stored and of the returned
  announcement. Otherwise the request fails and the store is as it was.
\<close>

theorem update_start_date_verbatim:
  assumes "username \<in> teachers_collection s"
    and "ObjectId L announcement_id = Some i"
    and "find_one (announcements_collection s) i = Some d"
    and "start_date_upd a = Some sd"
  shows "if validate_AnnouncementUpdate a \<and>
            (case expiration_date_upd a of
               None \<Rightarrow> True | Some e \<Rightarrow> fromisoformat L (replace_Z e))
         then \<exists>r s' d'. put_announcement L announcement_id a username s = (Inr r, s') \<and>
                r ''start_date'' = Some (Str sd) \<and>
                find_one (announcements_collection s') i = Some d' \<and>
                doc_fields d' ''start_date'' = Some (Str sd)
         else \<exists>e. put_announcement L announcement_id a username s = (Inl e, s)"
proof (cases "validate_AnnouncementUpdate a")
  case False
  then show ?thesis by (simp add: put_announcement_def)
next
  case v: True
  show ?thesis
  proof (cases "build_update_doc L a")
    case None
    with v assms(1-3) have "put_announcement L announcement_id a username s =
        (Inl (HTTPException 400 ''Invalid date format''), s)"
      by (simp add: put_announcement_def update_announcement_def)
    moreover from None have "\<not> (case expiration_date_upd a of
               None \<Rightarrow> True | Some e \<Rightarrow> fromisoformat L (replace_Z e))"
      by (auto simp: build_update_doc_None)
    ultimately show ?thesis by simp
  next
    case (Some u)
    then have ok: "case expiration_date_upd a of
               None \<Rightarrow> True | Some e \<Rightarrow> fromisoformat L (replace_Z e)"
      using build_update_doc_None [of L a] by (auto split: option.splits)
    from Some assms(4) have ne: "u \<noteq> []"
      by (auto simp: build_update_doc_Nil)
    let ?d' = "d\<lparr>doc_fields := set_fields (doc_fields d) u\<rparr>"
    let ?s' = "s\<lparr>announcements_collection := update_one (announcements_collection s) i u\<rparr>"
    have "update_announcement L announcement_id a username s = (Inr (stringify L ?d'), ?s')"
      using assms(1-3) Some ne by (rule update_announcement_success)
    with v have r: "put_announcement L announcement_id a username s =
        (Inr (stringify L ?d'), ?s')"
      by (simp add: put_announcement_def)
    have sd: "doc_fields ?d' ''start_date'' = Some (Str sd)"
      using build_update_doc_start_date [OF Some] assms(4) by simp
    then have rs: "stringify L ?d' ''start_date'' = Some (Str sd)"
      by (simp add: stringify_def)
    have f: "find_one (announcements_collection ?s') i = Some ?d'"
      using assms(3) by (simp add: find_one_update_one)
    from r rs f sd have "\<exists>r s' d'.
        put_announcement L announcement_id a username s = (Inr r, s') \<and>
        r ''start_date'' = Some (Str sd) \<and>
        find_one (announcements_collection s') i = Some d' \<and>
        doc_fields d' ''start_date'' = Some (Str sd)"
      by blast
    with v ok show ?thesis by simp
  qed
qed

theorem update_start_date_verbatim_witness:
  "''mrodriguez'' \<in> teachers_collection sample_store \<and>
   ObjectId sample_lib ''000000000000000000000001'' = Some 1 \<and>
   find_one (announcements_collection sample_store) 1 = Some ann_future \<and>
   \<not> fromisoformat sample_lib (replace_Z ''next week'') \<and>
   (\<exists>r s' d'. put_announcement sample_lib ''000000000000000000000001''
        \<lparr>message_upd = None, start_date_upd = Some ''next week'',
          expiration_date_upd = Some ''2031-01-01T00:00:00Z''\<rparr>
        ''mrodriguez'' sample_store = (Inr r, s') \<and>
      r ''start_date'' = Some (Str ''next week'') \<and>
      find_one (announcements_collection s') 1 = Some d' \<and>
      doc_fields d' ''start_date'' = Some (Str ''next week''))"
proof -
  let ?a = "\<lparr>message_upd = None, start_date_upd = Some ''next week'',
             expiration_date_upd = Some ''2031-01-01T00:00:00Z''\<rparr>"
  have t: "''mrodriguez'' \<in> teachers_collection sample_store"
    by (simp add: sample_store_def)
  have i: "ObjectId sample_lib ''000000000000000000000001'' = Some 1"
    by (simp add: sample_lib_def sample_ObjectId_def hex_val_def)
  have f: "find_one (announcements_collection sample_store) 1 = Some ann_future"
    by (simp add: sample_store_def ann_open_def ann_future_def ann_past_def)
  have p: "\<not> fromisoformat sample_lib (replace_Z ''next week'')"
    by (simp add: sample_lib_def sample_fromisoformat_def replace_Z_def)
  have v: "validate_AnnouncementUpdate ?a"
    by (simp add: validate_AnnouncementUpdate_def)
  have e: "fromisoformat sample_lib (replace_Z ''2031-01-01T00:00:00Z'')"
    by (simp add: sample_lib_def sample_fromisoformat_def replace_Z_def is_digit_def)
  from update_start_date_verbatim [OF t i f, where sd = "''next week''" and a = ?a] v e
  have "\<exists>r s' d'. put_announcement sample_lib ''000000000000000000000001'' ?a
        ''mrodriguez'' sample_store = (Inr r, s') \<and>
      r ''start_date'' = Some (Str ''next week'') \<and>
      find_one (announcements_collection s') 1 = Some d' \<and>
      doc_fields d' ''start_date'' = Some (Str ''next week'')"
    by simp
  with t i f p show ?thesis by simp
qed

text \<open>
  Claim C10 as stated fails on an update request of a teacher for a stored announcement
  that gives a start date together with an expiration date that does not parse: the
  request ends with status 400 and the start date given is not stored.
\<close>

theorem update_start_date_rejected_counterexample:
  "''mrodriguez'' \<in> teachers_collection sample_store \<and>
   ObjectId sample_lib ''000000000000000000000001'' = Some 1 \<and>
   find_one (announcements_collection sample_store) 1 = Some ann_future \<and>
   put_announcement sample_lib ''000000000000000000000001''
     \<lparr>message_upd = None, start_date_upd = Some ''2026-01-01'',
       expiration_date_upd = Some ''soon''\<rparr>
     ''mrodriguez'' sample_store =
     (Inl (HTTPException 400 ''Invalid date format''), sample_store) \<and>
   doc_fields ann_future ''start_date'' = Some (Str ''2029-09-01T00:00:00+00:00'')"
proof -
  have t: "''mrodriguez'' \<in> teachers_collection sample_store"
    by (simp add: sample_store_def)
  have i: "ObjectId sample_lib ''000000000000000000000001'' = Some 1"
    by (simp add: sample_lib_def sample_ObjectId_def hex_val_def)
  have f: "find_one (announcements_collection sample_store) 1 = Some ann_future"
    by (simp add: sample_store_def ann_open_def ann_future_def ann_past_def)
  have p: "\<not> fromisoformat sample_lib (replace_Z ''soon'')"
    by (simp add: sample_lib_def sample_fromisoformat_def replace_Z_def)
  have b: "build_update_doc sample_lib
      \<lparr>message_upd = None, start_date_upd = Some ''2026-01-01'',
        expiration_date_upd = Some ''soon''\<rparr> = None"
    using p by (simp add: build_update_doc_def)
  have r: "put_announcement sample_lib ''000000000000000000000001''
     \<lparr>message_upd = None, start_date_upd = Some ''2026-01-01'',
       expiration_date_upd = Some ''soon''\<rparr>
     ''mrodriguez'' sample_store =
     (Inl (HTTPException 400 ''Invalid date format''), sample_store)"
    using t i f b
    by (simp add: put_announcement_def validate_AnnouncementUpdate_def
        update_announcement_def)
  have s: "doc_fields ann_future ''start_date'' = Some (Str ''2029-09-01T00:00:00+00:00'')"
    by (simp add: ann_future_def)
  from t i f r s show ?thesis by simp
qed


text \<open>
  Claim C3. A successful update request changes one stored announcement, the first with
  the identifier given, and nothing else in the store. Of that announcement, each of
  \<^verbatim>\<open>message\<close>, \<^verbatim>\<open>start_date\<close> and \<^verbatim>\<open>expiration_date\<close> takes the value supplied, or keeps
  its value when none is supplied; every other field (\<^verbatim>\<open>created_by\<close> and \<^verbatim>\<open>created_at\<close>
  among them) and the identifier keep their values. At least one field is supplied, and
  the result is the whole announcement as stored after the update, with \<^verbatim>\<open>_id\<close> set to
  the string of its identifier.
\<close>

theorem put_announcement_frame:
  assumes "put_announcement L announcement_id a username s = (Inr r, s')"
  shows "\<exists>i d d' pre post.
           ObjectId L announcement_id = Some i \<and>
           announcements_collection s = pre @ d # post \<and>
           i \<notin> oid ` set pre \<and> oid d = i \<and>
           announcements_collection s' = pre @ d' # post \<and>
           teachers_collection s' = teachers_collection s \<and>
           next_oid s' = next_oid s \<and>
           oid d' = oid d \<and>
           doc_fields d' ''message'' =
             (case message_upd a of
                None \<Rightarrow> doc_fields d ''message'' | Some m \<Rightarrow> Some (Str m)) \<and>
           doc_fields d' ''start_date'' =
             (case start_date_upd a of
                None \<Rightarrow> doc_fields d ''start_date'' | Some sd \<Rightarrow> Some (Str sd)) \<and>
           doc_fields d' ''expiration_date'' =
             (case expiration_date_upd a of
                None \<Rightarrow> doc_fields d ''expiration_date'' | Some e \<Rightarrow> Some (Str e)) \<and>
           (\<forall>k. k \<notin> {''message'', ''start_date'', ''expiration_date''} \<longrightarrow>
                doc_fields d' k = doc_fields d k) \<and>
           \<not> (message_upd a = None \<and> start_date_upd a = None \<and>
              expiration_date_upd a = None) \<and>
           find_one (announcements_collection s') i = Some d' \<and>
           r = (doc_fields d')(''_id'' \<mapsto> Str (str_oid L i))"
proof -
  from put_announcement_Inr [OF assms]
  have "update_announcement L announcement_id a username s = (Inr r, s')" by simp
  from update_announcement_Inr [OF this] obtain i d u where
    i: "ObjectId L announcement_id = Some i" and
    d: "find_one (announcements_collection s) i = Some d" and
    u: "build_update_doc L a = Some u" and ne: "u \<noteq> []" and
    r: "r = stringify L (d\<lparr>doc_fields := set_fields (doc_fields d) u\<rparr>)" and
    s': "s' = s\<lparr>announcements_collection := update_one (announcements_collection s) i u\<rparr>"
    by blast
  define d' where "d' = d\<lparr>doc_fields := set_fields (doc_fields d) u\<rparr>"
  from find_one_split [OF d] obtain pre post where
    c: "announcements_collection s = pre @ d # post" and p: "i \<notin> oid ` set pre"
    by blast
  from find_one_Some [OF d] have o: "oid d = i" by simp
  from c p o s' have c': "announcements_collection s' = pre @ d' # post"
    by (simp add: update_one_append d'_def)
  from s' have t: "teachers_collection s' = teachers_collection s"
    and n: "next_oid s' = next_oid s" by simp_all
  have o': "oid d' = oid d" by (simp add: d'_def)
  have m: "doc_fields d' ''message'' =
             (case message_upd a of
                None \<Rightarrow> doc_fields d ''message'' | Some m \<Rightarrow> Some (Str m))"
    using build_update_doc_message [OF u] by (simp add: d'_def)
  have sd: "doc_fields d' ''start_date'' =
             (case start_date_upd a of
                None \<Rightarrow> doc_fields d ''start_date'' | Some sd \<Rightarrow> Some (Str sd))"
    using build_update_doc_start_date [OF u] by (simp add: d'_def)
  have e: "doc_fields d' ''expiration_date'' =
             (case expiration_date_upd a of
                None \<Rightarrow> doc_fields d ''expiration_date'' | Some e \<Rightarrow> Some (Str e))"
    using build_update_doc_expiration_date [OF u] by (simp add: d'_def)
  have k: "\<forall>k. k \<notin> {''message'', ''start_date'', ''expiration_date''} \<longrightarrow>
                doc_fields d' k = doc_fields d k"
    using build_update_doc_other [OF u] by (simp add: d'_def)
  have some: "\<not> (message_upd a = None \<and> start_date_upd a = None \<and>
              expiration_date_upd a = None)"
    using build_update_doc_Nil [of L a] u ne by auto
  from d s' have f: "find_one (announcements_collection s') i = Some d'"
    by (simp add: find_one_update_one d'_def)
  from r o have r': "r = (doc_fields d')(''_id'' \<mapsto> Str (str_oid L i))"
    by (simp add: stringify_def d'_def)
  have "ObjectId L announcement_id = Some i \<and>
           announcements_collection s = pre @ d # post \<and>
           i \<notin> oid ` set pre \<and> oid d = i \<and>
           announcements_collection s' = pre @ d' # post \<and>
           teachers_collection s' = teachers_collection s \<and>
           next_oid s' = next_oid s \<and>
           oid d' = oid d \<and>
           doc_fields d' ''message'' =
             (case message_upd a of
                None \<Rightarrow> doc_fields d ''message'' | Some m \<Rightarrow> Some (Str m)) \<and>
           doc_fields d' ''start_date'' =
             (case start_date_upd a of
                None \<Rightarrow> doc_fields d ''start_date'' | Some sd \<Rightarrow> Some (Str sd)) \<and>
           doc_fields d' ''expiration_date'' =
             (case expiration_date_upd a of
                None \<Rightarrow> doc_fields d ''expiration_date'' | Some e \<Rightarrow> Some (Str e)) \<and>
           (\<forall>k. k \<notin> {''message'', ''start_date'', ''expiration_date''} \<longrightarrow>
                doc_fields d' k = doc_fields d k) \<and>
           \<not> (message_upd a = None \<and> start_date_upd a = None \<and>
              expiration_date_upd a = None) \<and>
           find_one (announcements_collection s') i = Some d' \<and>
           r = (doc_fields d')(''_id'' \<mapsto> Str (str_oid L i))"
    using i c p o c' t n o' m sd e k some f r' by (intro conjI)
  then show ?thesis by (intro exI)
qed

theorem put_announcement_frame_witness:
  "put_announcement sample_lib ''000000000000000000000000''
     \<lparr>message_upd = Some ''Welcome'', start_date_upd = None, expiration_date_upd = None\<rparr>
     ''mrodriguez'' sample_store =
     (Inr [''message'' \<mapsto> Str ''Welcome'',
           ''start_date'' \<mapsto> Null,
           ''expiration_date'' \<mapsto> Str ''2030-01-01T00:00:00+00:00'',
           ''created_by'' \<mapsto> Str ''mrodriguez'',
           ''created_at'' \<mapsto> Str ''2025-01-15T08:00:00+00:00'',
           ''_id'' \<mapsto> Str (str_oid sample_lib 0)],
      sample_store\<lparr>announcements_collection :=
        [ann_open\<lparr>doc_fields := (doc_fields ann_open)(''message'' \<mapsto> Str ''Welcome'')\<rparr>,
         ann_future, ann_past]\<rparr>) \<and>
   (\<exists>d'. find_one
           (announcements_collection
              (snd (put_announcement sample_lib ''000000000000000000000000''
                 \<lparr>message_upd = Some ''Welcome'', start_date_upd = None,
                   expiration_date_upd = None\<rparr> ''mrodriguez'' sample_store))) 0 = Some d' \<and>
         doc_fields d' ''message'' = Some (Str ''Welcome'') \<and>
         doc_fields d' ''expiration_date'' = Some (Str ''2030-01-01T00:00:00+00:00'') \<and>
         doc_fields d' ''created_by'' = Some (Str ''mrodriguez''))"
proof -
  let ?a = "\<lparr>message_upd = Some ''Welcome'', start_date_upd = None,
             expiration_date_upd = None\<rparr>"
  let ?d = "ann_open\<lparr>doc_fields := (doc_fields ann_open)(''message'' \<mapsto> Str ''Welcome'')\<rparr>"
  let ?s = "sample_store\<lparr>announcements_collection := [?d, ann_future, ann_past]\<rparr>"
  have t: "''mrodriguez'' \<in> teachers_collection sample_store"
    by (simp add: sample_store_def)
  have i: "ObjectId sample_lib ''000000000000000000000000'' = Some 0"
    by (simp add: sample_lib_def sample_ObjectId_def hex_val_def)
  have o: "oid ann_open = 0" by (simp add: ann_open_def)
  have f: "find_one (announcements_collection sample_store) 0 = Some ann_open"
    by (simp add: sample_store_def o)
  have u: "build_update_doc sample_lib ?a = Some [(''message'', Str ''Welcome'')]"
    by (simp add: build_update_doc_def)
  have v: "validate_AnnouncementUpdate ?a"
    by (simp add: validate_AnnouncementUpdate_def valid_message_def)
  have c0: "put_announcement sample_lib ''000000000000000000000000'' ?a
     ''mrodriguez'' sample_store = (Inr (stringify sample_lib ?d), ?s)"
    using update_announcement_success [OF t i f u] v
    by (simp add: put_announcement_def sample_store_def o)
  have st: "stringify sample_lib ?d =
          [''message'' \<mapsto> Str ''Welcome'',
           ''start_date'' \<mapsto> Null,
           ''expiration_date'' \<mapsto> Str ''2030-01-01T00:00:00+00:00'',
           ''created_by'' \<mapsto> Str ''mrodriguez'',
           ''created_at'' \<mapsto> Str ''2025-01-15T08:00:00+00:00'',
           ''_id'' \<mapsto> Str (str_oid sample_lib 0)]"
    by (auto simp: stringify_def ann_open_def)
  from put_announcement_frame [OF c0]
  have "\<exists>d'. find_one (announcements_collection ?s) 0 = Some d' \<and>
         doc_fields d' ''message'' = Some (Str ''Welcome'')"
    using i by (elim exE conjE) simp
  moreover have "find_one (announcements_collection ?s) 0 = Some ?d"
    by (simp add: o)
  ultimately have "find_one (announcements_collection ?s) 0 = Some ?d \<and>
         doc_fields ?d ''message'' = Some (Str ''Welcome'') \<and>
         doc_fields ?d ''expiration_date'' = Some (Str ''2030-01-01T00:00:00+00:00'') \<and>
         doc_fields ?d ''created_by'' = Some (Str ''mrodriguez'')"
    by (simp add: ann_open_def)
  then have "\<exists>d'. find_one (announcements_collection ?s) 0 = Some d' \<and>
         doc_fields d' ''message'' = Some (Str ''Welcome'') \<and>
         doc_fields d' ''expiration_date'' = Some (Str ''2030-01-01T00:00:00+00:00'') \<and>
         doc_fields d' ''created_by'' = Some (Str ''mrodriguez'')"
    by (intro exI)
  then have "\<exists>d'. find_one
           (announcements_collection
              (snd (put_announcement sample_lib ''000000000000000000000000''
                 ?a ''mrodriguez'' sample_store))) 0 = Some d' \<and>
         doc_fields d' ''message'' = Some (Str ''Welcome'') \<and>
         doc_fields d' ''expiration_date'' = Some (Str ''2030-01-01T00:00:00+00:00'') \<and>
         doc_fields d' ''created_by'' = Some (Str ''mrodriguez'')"
    by (simp only: c0 snd_conv)
  with c0 st show ?thesis by simp
qed

section \<open>Deleting an announcement\<close>

text \<open>
  Claim C6. A delete request of a teacher with a well-formed identifier fails with status
  404, the store as it was, when no announcement has the identifier. Otherwise it removes
  the first announcement with the identifier, leaves the rest of the store as it was and
  returns the confirmation. In a store keyed by identifier the announcement is then gone:
  the identifier is not found, a second delete fails with 404, and no later sequence of
  requests brings the identifier back.
\<close>

theorem delete_announcement_effect:
  assumes "username \<in> teachers_collection s"
    and "ObjectId L announcement_id = Some i"
  shows "(find_one (announcements_collection s) i = None \<longrightarrow>
            handle L (Delete announcement_id username) s =
              (Inl (HTTPException 404 ''Announcement not found''), s)) \<and>
         kind (HTTPException 404 ''Announcement not found'') = Some NotFound \<and>
         (\<forall>d. find_one (announcements_collection s) i = Some d \<longrightarrow>
            (\<exists>pre post s'.
               announcements_collection s = pre @ d # post \<and> i \<notin> oid ` set pre \<and>
               s' = s\<lparr>announcements_collection := pre @ post\<rparr> \<and>
               handle L (Delete announcement_id username) s =
                 (Inr [''message'' \<mapsto> Str ''Announcement deleted successfully''], s') \<and>
               (store_ok s \<longrightarrow>
                  find_one (announcements_collection s') i = None \<and>
                  handle L (Delete announcement_id username) s' =
                    (Inl (HTTPException 404 ''Announcement not found''), s') \<and>
                  (\<forall>rs. find_one (announcements_collection (run L rs s')) i = None))))"
proof -
  have absent: "handle L (Delete announcement_id username) t =
          (Inl (HTTPException 404 ''Announcement not found''), t)"
    if "find_one (announcements_collection t) i = None"
      and "teachers_collection t = teachers_collection s" for t
    using that assms by (simp add: delete_announcement_def find_one_None delete_one_absent)
  have 1: "find_one (announcements_collection s) i = None \<longrightarrow>
            handle L (Delete announcement_id username) s =
              (Inl (HTTPException 404 ''Announcement not found''), s)"
    using absent by simp
  have 3: "\<exists>pre post s'.
               announcements_collection s = pre @ d # post \<and> i \<notin> oid ` set pre \<and>
               s' = s\<lparr>announcements_collection := pre @ post\<rparr> \<and>
               handle L (Delete announcement_id username) s =
                 (Inr [''message'' \<mapsto> Str ''Announcement deleted successfully''], s') \<and>
               (store_ok s \<longrightarrow>
                  find_one (announcements_collection s') i = None \<and>
                  handle L (Delete announcement_id username) s' =
                    (Inl (HTTPException 404 ''Announcement not found''), s') \<and>
                  (\<forall>rs. find_one (announcements_collection (run L rs s')) i = None))"
    if d: "find_one (announcements_collection s) i = Some d" for d
  proof -
    from find_one_split [OF d] obtain pre post where
      c: "announcements_collection s = pre @ d # post" and p: "i \<notin> oid ` set pre"
      by blast
    from find_one_Some [OF d] have o: "oid d = i" by simp
    define s' where "s' = s\<lparr>announcements_collection := pre @ post\<rparr>"
    from p o have "delete_one (pre @ d # post) i = (1, pre @ post)"
      by (simp add: delete_one_append)
    with assms c have r: "handle L (Delete announcement_id username) s =
        (Inr [''message'' \<mapsto> Str ''Announcement deleted successfully''], s')"
      by (simp add: delete_announcement_def s'_def)
    have k: "find_one (announcements_collection s') i = None \<and>
             handle L (Delete announcement_id username) s' =
               (Inl (HTTPException 404 ''Announcement not found''), s') \<and>
             (\<forall>rs. find_one (announcements_collection (run L rs s')) i = None)"
      if ok: "store_ok s"
    proof -
      from ok c o have gone: "i \<notin> oid ` set (announcements_collection s')"
        by (auto simp: store_ok_def s'_def)
      from ok c o have below: "i < next_oid s'"
        by (auto simp: store_ok_def s'_def)
      from gone have n: "find_one (announcements_collection s') i = None"
        by (simp add: find_one_None)
      have "teachers_collection s' = teachers_collection s" by (simp add: s'_def)
      with n have again: "handle L (Delete announcement_id username) s' =
               (Inl (HTTPException 404 ''Announcement not found''), s')"
        by (rule absent)
      have "find_one (announcements_collection (run L rs s')) i = None" for rs
        using run_absent [OF gone below, of L rs] by (simp add: find_one_None)
      with n again show ?thesis by simp
    qed
    have "announcements_collection s = pre @ d # post \<and> i \<notin> oid ` set pre \<and>
               s' = s\<lparr>announcements_collection := pre @ post\<rparr> \<and>
               handle L (Delete announcement_id username) s =
                 (Inr [''message'' \<mapsto> Str ''Announcement deleted successfully''], s') \<and>
               (store_ok s \<longrightarrow>
                  find_one (announcements_collection s') i = None \<and>
                  handle L (Delete announcement_id username) s' =
                    (Inl (HTTPException 404 ''Announcement not found''), s') \<and>
                  (\<forall>rs. find_one (announcements_collection (run L rs s')) i = None))"
      using c p r k by (simp add: s'_def)
    then show ?thesis by (intro exI)
  qed
  from 1 3 show ?thesis by simp
qed

theorem delete_announcement_effect_witness:
  "''mrodriguez'' \<in> teachers_collection sample_store \<and>
   ObjectId sample_lib ''000000000000000000000001'' = Some 1 \<and>
   ObjectId sample_lib ''000000000000000000000009'' = Some 9 \<and>
   store_ok sample_store \<and>
   handle sample_lib (Delete ''000000000000000000000009'' ''mrodriguez'') sample_store =
     (Inl (HTTPException 404 ''Announcement not found''), sample_store) \<and>
   handle sample_lib (Delete ''000000000000000000000001'' ''mrodriguez'') sample_store =
     (Inr [''message'' \<mapsto> Str ''Announcement deleted successfully''],
      sample_store\<lparr>announcements_collection := [ann_open, ann_past]\<rparr>) \<and>
   handle sample_lib (Delete ''000000000000000000000001'' ''mrodriguez'')
     (sample_store\<lparr>announcements_collection := [ann_open, ann_past]\<rparr>) =
     (Inl (HTTPException 404 ''Announcement not found''),
      sample_store\<lparr>announcements_collection := [ann_open, ann_past]\<rparr>)"
proof -
  have t: "''mrodriguez'' \<in> teachers_collection sample_store"
    by (simp add: sample_store_def)
  have i1: "ObjectId sample_lib ''000000000000000000000001'' = Some 1"
    by (simp add: sample_lib_def sample_ObjectId_def hex_val_def)
  have i9: "ObjectId sample_lib ''000000000000000000000009'' = Some 9"
    by (simp add: sample_lib_def sample_ObjectId_def hex_val_def)
  have o: "oid ann_open = 0" "oid ann_future = 1" "oid ann_past = 2"
    by (simp_all add: ann_open_def ann_future_def ann_past_def)
  have ok: "store_ok sample_store"
    by (simp add: store_ok_def sample_store_def o)
  have f9: "find_one (announcements_collection sample_store) 9 = None"
    by (simp add: sample_store_def o)
  have f1: "find_one (announcements_collection sample_store) 1 = Some ann_future"
    by (simp add: sample_store_def o)
  from delete_announcement_effect [OF t i9] f9
  have 1: "handle sample_lib (Delete ''000000000000000000000009'' ''mrodriguez'')
      sample_store = (Inl (HTTPException 404 ''Announcement not found''), sample_store)"
    by simp
  from delete_announcement_effect [OF t i1] f1 ok obtain pre post s' where
    c: "announcements_collection sample_store = pre @ ann_future # post" and
    p: "1 \<notin> oid ` set pre" and
    s': "s' = sample_store\<lparr>announcements_collection := pre @ post\<rparr>" and
    r: "handle sample_lib (Delete ''000000000000000000000001'' ''mrodriguez'')
          sample_store =
          (Inr [''message'' \<mapsto> Str ''Announcement deleted successfully''], s')" and
    again: "handle sample_lib (Delete ''000000000000000000000001'' ''mrodriguez'') s' =
          (Inl (HTTPException 404 ''Announcement not found''), s')"
    by blast
  have "delete_one (announcements_collection sample_store) 1 = (1, [ann_open, ann_past])"
    by (simp add: sample_store_def o)
  with t i1 have "handle sample_lib (Delete ''000000000000000000000001'' ''mrodriguez'')
      sample_store =
      (Inr [''message'' \<mapsto> Str ''Announcement deleted successfully''],
       sample_store\<lparr>announcements_collection := [ann_open, ann_past]\<rparr>)"
    by (simp add: delete_announcement_def)
  with r have e: "s' = sample_store\<lparr>announcements_collection := [ann_open, ann_past]\<rparr>"
    by simp
  from t i1 i9 ok 1 r again e show ?thesis by simp
qed


section \<open>Creating an announcement\<close>

text \<open>
  Claim C7. A successful create request comes from a teacher with an expiration date
  that parses. It appends one document to the store, under the identifier the store
  assigns, with the message, the start date (\<^verbatim>\<open>None\<close> when absent) and the expiration date
  of the body, the username as \<^verbatim>\<open>created_by\<close> and the current timestamp as
  \<^verbatim>\<open>created_at\<close>, and changes nothing else. The result is that document with \<^verbatim>\<open>_id\<close> set
  to the string of the identifier. In a store keyed by identifier the new identifier is
  not in use before, and every create request that succeeds later, after any sequence of
  requests, returns another identifier, and another \<^verbatim>\<open>_id\<close> string when distinct
  identifiers have distinct strings.
\<close>

theorem post_announcement_persists:
  assumes "post_announcement L now body username s = (Inr r, s')"
  shows "username \<in> teachers_collection s \<and>
         fromisoformat L (replace_Z (expiration_date body)) \<and>
         announcements_collection s' =
           announcements_collection s @
           [\<lparr>oid = next_oid s,
             doc_fields =
               [''message'' \<mapsto> Str (message body),
                ''start_date'' \<mapsto> (case start_date body of None \<Rightarrow> Null | Some sd \<Rightarrow> Str sd),
                ''expiration_date'' \<mapsto> Str (expiration_date body),
                ''created_by'' \<mapsto> Str username,
                ''created_at'' \<mapsto> Str now]\<rparr>] \<and>
         teachers_collection s' = teachers_collection s \<and>
         r = [''message'' \<mapsto> Str (message body),
              ''start_date'' \<mapsto> (case start_date body of None \<Rightarrow> Null | Some sd \<Rightarrow> Str sd),
              ''expiration_date'' \<mapsto> Str (expiration_date body),
              ''created_by'' \<mapsto> Str username,
              ''created_at'' \<mapsto> Str now,
              ''_id'' \<mapsto> Str (str_oid L (next_oid s))] \<and>
         (store_ok s \<longrightarrow>
            next_oid s \<notin> oid ` set (announcements_collection s) \<and> store_ok s') \<and>
         (\<forall>rs now2 body2 username2 r2 s2.
            post_announcement L now2 body2 username2 (run L rs s') = (Inr r2, s2) \<longrightarrow>
            (\<exists>j. j \<noteq> next_oid s \<and> r2 ''_id'' = Some (Str (str_oid L j)) \<and>
                 (inj (str_oid L) \<longrightarrow> r2 ''_id'' \<noteq> r ''_id'')))"
proof -
  note p = post_announcement_Inr [OF assms]
  note t = p [THEN conjunct2, THEN conjunct1]
  note nd = p [THEN conjunct2, THEN conjunct2, THEN conjunct1]
  note r0 = p [THEN conjunct2, THEN conjunct2, THEN conjunct2, THEN conjunct1]
  note s0 = p [THEN conjunct2, THEN conjunct2, THEN conjunct2, THEN conjunct2]
  from nd have e: "fromisoformat L (replace_Z (expiration_date body))"
    by (simp add: create_dates_invalid_def split: if_splits)
  have c: "announcements_collection s' =
           announcements_collection s @
           [\<lparr>oid = next_oid s,
             doc_fields =
               [''message'' \<mapsto> Str (message body),
                ''start_date'' \<mapsto> (case start_date body of None \<Rightarrow> Null | Some sd \<Rightarrow> Str sd),
                ''expiration_date'' \<mapsto> Str (expiration_date body),
                ''created_by'' \<mapsto> Str username,
                ''created_at'' \<mapsto> Str now]\<rparr>]"
    by (simp add: s0 opt_val_def)
  have t': "teachers_collection s' = teachers_collection s"
    by (simp add: s0)
  have n': "next_oid s' = Suc (next_oid s)"
    by (simp add: s0)
  have r: "r = [''message'' \<mapsto> Str (message body),
              ''start_date'' \<mapsto> (case start_date body of None \<Rightarrow> Null | Some sd \<Rightarrow> Str sd),
              ''expiration_date'' \<mapsto> Str (expiration_date body),
              ''created_by'' \<mapsto> Str username,
              ''created_at'' \<mapsto> Str now,
              ''_id'' \<mapsto> Str (str_oid L (next_oid s))]"
    by (simp add: r0 opt_val_def)
  have r1: "r ''_id'' = Some (Str (str_oid L (next_oid s)))"
    by (simp add: r0)
  have k: "store_ok s \<longrightarrow>
            next_oid s \<notin> oid ` set (announcements_collection s) \<and> store_ok s'"
  proof
    assume ok: "store_ok s"
    then have "list_all (\<lambda>d. oid d < next_oid s) (announcements_collection s)"
      by (simp add: store_ok_def)
    then have 1: "next_oid s \<notin> oid ` set (announcements_collection s)"
      by (auto simp: list_all_iff)
    from handle_store_ok [OF ok, of L "Post now body username"]
    have 2: "store_ok s'" by (simp add: assms)
    from 1 2 show "next_oid s \<notin> oid ` set (announcements_collection s) \<and> store_ok s'"
      by (rule conjI)
  qed
  have later: "\<forall>rs now2 body2 username2 r2 s2.
            post_announcement L now2 body2 username2 (run L rs s') = (Inr r2, s2) \<longrightarrow>
            (\<exists>j. j \<noteq> next_oid s \<and> r2 ''_id'' = Some (Str (str_oid L j)) \<and>
                 (inj (str_oid L) \<longrightarrow> r2 ''_id'' \<noteq> r ''_id''))"
  proof (intro allI impI)
    fix rs now2 body2 username2 r2 s2
    assume p2: "post_announcement L now2 body2 username2 (run L rs s') = (Inr r2, s2)"
    define j where "j = next_oid (run L rs s')"
    from run_next_oid [of s' L rs] n' have j: "j \<noteq> next_oid s" by (simp add: j_def)
    note q = post_announcement_Inr [OF p2]
    have r2: "r2 ''_id'' = Some (Str (str_oid L j))"
      by (simp add: q [THEN conjunct2, THEN conjunct2, THEN conjunct2, THEN conjunct1]
          j_def)
    have i: "inj (str_oid L) \<longrightarrow> r2 ''_id'' \<noteq> r ''_id''"
      using j by (simp add: r1 r2 inj_eq)
    from j r2 i have "j \<noteq> next_oid s \<and> r2 ''_id'' = Some (Str (str_oid L j)) \<and>
                 (inj (str_oid L) \<longrightarrow> r2 ''_id'' \<noteq> r ''_id'')"
      by (intro conjI)
    then show "\<exists>j. j \<noteq> next_oid s \<and> r2 ''_id'' = Some (Str (str_oid L j)) \<and>
                 (inj (str_oid L) \<longrightarrow> r2 ''_id'' \<noteq> r ''_id'')"
      by (intro exI)
  qed
  from t e c t' r k later show ?thesis by (intro conjI)
qed

theorem post_announcement_persists_witness:
  "post_announcement sample_lib now0
     \<lparr>message = ''Field trip'', start_date = Some ''2025-09-01'',
       expiration_date = ''2026-01-01T00:00:00Z''\<rparr> ''mrodriguez'' sample_store =
     (Inr [''message'' \<mapsto> Str ''Field trip'',
           ''start_date'' \<mapsto> Str ''2025-09-01'',
           ''expiration_date'' \<mapsto> Str ''2026-01-01T00:00:00Z'',
           ''created_by'' \<mapsto> Str ''mrodriguez'',
           ''created_at'' \<mapsto> Str now0,
           ''_id'' \<mapsto> Str (str_oid sample_lib 3)],
      sample_store\<lparr>announcements_collection :=
          [ann_open, ann_future, ann_past,
           \<lparr>oid = 3,
             doc_fields = [''message'' \<mapsto> Str ''Field trip'',
                           ''start_date'' \<mapsto> Str ''2025-09-01'',
                           ''expiration_date'' \<mapsto> Str ''2026-01-01T00:00:00Z'',
                           ''created_by'' \<mapsto> Str ''mrodriguez'',
                           ''created_at'' \<mapsto> Str now0]\<rparr>],
        next_oid := 4\<rparr>) \<and>
   (\<exists>r2 s2.
      post_announcement sample_lib now0
        \<lparr>message = ''Field trip'', start_date = Some ''2025-09-01'',
          expiration_date = ''2026-01-01T00:00:00Z''\<rparr> ''mrodriguez''
        (sample_store\<lparr>announcements_collection :=
          [ann_open, ann_future, ann_past,
           \<lparr>oid = 3,
             doc_fields = [''message'' \<mapsto> Str ''Field trip'',
                           ''start_date'' \<mapsto> Str ''2025-09-01'',
                           ''expiration_date'' \<mapsto> Str ''2026-01-01T00:00:00Z'',
                           ''created_by'' \<mapsto> Str ''mrodriguez'',
                           ''created_at'' \<mapsto> Str now0]\<rparr>],
          next_oid := 4\<rparr>) = (Inr r2, s2) \<and>
      r2 ''_id'' \<noteq> Some (Str (str_oid sample_lib 3)))"
proof -
  let ?body = "\<lparr>message = ''Field trip'', start_date = Some ''2025-09-01'',
       expiration_date = ''2026-01-01T00:00:00Z''\<rparr>"
  let ?R = "[''message'' \<mapsto> Str ''Field trip'',
           ''start_date'' \<mapsto> Str ''2025-09-01'',
           ''expiration_date'' \<mapsto> Str ''2026-01-01T00:00:00Z'',
           ''created_by'' \<mapsto> Str ''mrodriguez'',
           ''created_at'' \<mapsto> Str now0,
           ''_id'' \<mapsto> Str (str_oid sample_lib 3)]"
  let ?S = "sample_store\<lparr>announcements_collection :=
          [ann_open, ann_future, ann_past,
           \<lparr>oid = 3,
             doc_fields = [''message'' \<mapsto> Str ''Field trip'',
                           ''start_date'' \<mapsto> Str ''2025-09-01'',
                           ''expiration_date'' \<mapsto> Str ''2026-01-01T00:00:00Z'',
                           ''created_by'' \<mapsto> Str ''mrodriguez'',
                           ''created_at'' \<mapsto> Str now0]\<rparr>],
        next_oid := 4\<rparr>"
  have v: "validate_AnnouncementCreate ?body"
    by (simp add: validate_AnnouncementCreate_def valid_message_def)
  have t: "''mrodriguez'' \<in> teachers_collection sample_store"
    by (simp add: sample_store_def)
  have t2: "''mrodriguez'' \<in> teachers_collection ?S"
    by (simp add: sample_store_def)
  have p: "\<not> create_dates_invalid sample_lib ?body"
    by (simp add: create_dates_invalid_def sample_lib_def sample_fromisoformat_def
        replace_Z_def is_digit_def)
  have c1: "post_announcement sample_lib now0 ?body ''mrodriguez'' sample_store =
      (Inr ?R, ?S)"
    using post_announcement_success [OF v t p, of now0]
    by (simp add: sample_store_def opt_val_def)
  obtain r2 s2 where
    c2: "post_announcement sample_lib now0 ?body ''mrodriguez'' ?S = (Inr r2, s2)"
    by (rule that, rule post_announcement_success [OF v t2 p])
  then have c2r: "post_announcement sample_lib now0 ?body ''mrodriguez''
      (run sample_lib [] ?S) = (Inr r2, s2)"
    by simp
  from post_announcement_persists [OF c1]
  have "\<forall>rs now2 body2 username2 r2 s2.
            post_announcement sample_lib now2 body2 username2 (run sample_lib rs ?S) =
              (Inr r2, s2) \<longrightarrow>
            (\<exists>j. j \<noteq> next_oid sample_store \<and>
                 r2 ''_id'' = Some (Str (str_oid sample_lib j)) \<and>
                 (inj (str_oid sample_lib) \<longrightarrow> r2 ''_id'' \<noteq> ?R ''_id''))"
    by (elim conjE)
  from this [rule_format, OF c2r] inj_sample_str_oid
  have "r2 ''_id'' \<noteq> Some (Str (str_oid sample_lib 3))"
    by (auto simp: sample_lib_def)
  with c2 have "\<exists>r2 s2.
      post_announcement sample_lib now0 ?body ''mrodriguez'' ?S = (Inr r2, s2) \<and>
      r2 ''_id'' \<noteq> Some (Str (str_oid sample_lib 3))"
    by (intro exI conjI)
  with c1 show ?thesis by (intro conjI)
qed




section \<open>The length of the message\<close>



end
